theory Spec2Isabelle
  imports Complex_Main "HOL-Library.Multiset" "HOL-Library.List_Lexorder" "HOL-Library.Char_ord"
    "HOL-Library.Log_Nat"
begin

section \<open>Data model (src/types.ts)\<close>

text \<open>
  A \<open>number\<close> field of a record holds a finite double, written as the rational it is. The
  report computation adds these rationals; the client financials and the dashboard
  statistics compute as the program does, every operation rounded to a double (section
  ``JavaScript numbers''). An optional field (\<open>company?: string\<close>) is an \<open>option\<close>; \<open>None\<close>
  stands for both \<open>undefined\<close> and \<open>null\<close>. Strings are compared as JavaScript compares them
  with \<open><=\<close>: lexicographically by code unit, a proper prefix being smaller.
\<close>

type_synonym number = rat

datatype ptype = RECEIVED | REFUND

record Client =
  c_id :: string
  c_name :: string
  c_email :: string
  c_phone :: string
  c_company :: "string option"
  c_notes :: "string option"
  c_createdAt :: number
  c_isActive :: "bool option"
  c_totalBilled :: "number option"

record Payment =
  p_id :: string
  p_clientId :: string
  p_amount :: number
  p_date :: string
  p_description :: "string option"
  p_method :: "string option"
  p_details :: "string option"
  p_type :: "ptype option"

record Expense =
  e_id :: string
  e_category :: string
  e_amount :: number
  e_date :: string
  e_description :: string

text \<open>The contents of an \<open>AppData\<close> object: what \<open>JSON.stringify\<close> writes and a reader sees.\<close>

record AppData =
  clients :: "Client list"
  payments :: "Payment list"
  expenses :: "Expense list"

definition empty_ledger :: AppData where
  "empty_ledger = \<lparr>clients = [], payments = [], expenses = []\<rparr>"

section \<open>JavaScript idioms used by the source\<close>

text \<open>\<open>x || d\<close> on an optional string: \<open>undefined\<close>, \<open>null\<close> and the empty string are falsy.\<close>

definition str_or :: "string option \<Rightarrow> string \<Rightarrow> string" where
  "str_or x d = (case x of None \<Rightarrow> d | Some s \<Rightarrow> if s = [] then d else s)"

text \<open>\<open>x || 0\<close> on an optional number: \<open>undefined\<close> and \<open>0\<close> both give \<open>0\<close>.\<close>

definition num_or0 :: "number option \<Rightarrow> number" where
  "num_or0 x = (case x of None \<Rightarrow> 0 | Some n \<Rightarrow> n)"

text \<open>
  \<open>Array.prototype.sort(compare)\<close>: a stable sort; \<open>compare a b > 0\<close> puts \<open>a\<close> after
  \<open>b\<close>. It sorts the receiver in place and returns it; \<open>js_sort\<close> is the content the array
  has afterwards. \<open>String.prototype.localeCompare\<close> depends on the host's collation, so the
  comparison of two strings is a parameter \<open>lc\<close> of everything that sorts.
\<close>

fun js_insert :: "('a \<Rightarrow> 'a \<Rightarrow> int) \<Rightarrow> 'a \<Rightarrow> 'a list \<Rightarrow> 'a list" where
  "js_insert cmp x [] = [x]"
| "js_insert cmp x (y # ys) = (if cmp x y \<le> 0 then x # y # ys else y # js_insert cmp x ys)"

fun js_sort :: "('a \<Rightarrow> 'a \<Rightarrow> int) \<Rightarrow> 'a list \<Rightarrow> 'a list" where
  "js_sort cmp [] = []"
| "js_sort cmp (x # xs) = js_insert cmp x (js_sort cmp xs)"

text \<open>The code-unit collation, used where an example needs a concrete \<open>localeCompare\<close>.\<close>

definition ordinalCompare :: "string \<Rightarrow> string \<Rightarrow> int" where
  "ordinalCompare a b = (if a < b then - 1 else if a = b then 0 else 1)"

section \<open>JavaScript numbers\<close>

text \<open>
  A JavaScript number is an IEEE 754 double: a finite value, an infinity, or NaN. The finite
  doubles are the rationals \<open>n * 2^q\<close> with \<open>\<bar>n\<bar> < 2^53\<close> and \<open>- 1074 \<le> q\<close>, below \<open>2^1024\<close>
  in size. Negative zero is not told apart from zero: no comparison or sum of the program
  tells them apart.
\<close>

datatype jsnum = Num rat | PosInf | NegInf | NaN

definition pow2 :: "int \<Rightarrow> rat" where
  "pow2 k = (if 0 \<le> k then 2 ^ nat k else 1 / 2 ^ nat (- k))"

text \<open>The binary exponent of a positive rational: the \<open>e\<close> with \<open>2^e \<le> x < 2^(e + 1)\<close>.\<close>

definition ilog2 :: "rat \<Rightarrow> int" where
  "ilog2 x = (if 1 \<le> x then bitlen \<lfloor>x\<rfloor> - 1 else - bitlen (\<lceil>1 / x\<rceil> - 1))"

definition round_half_even :: "rat \<Rightarrow> int" where
  "round_half_even m =
    (let n = \<lfloor>m\<rfloor>; f = m - of_int n
     in if f < 1 / 2 then n else if 1 / 2 < f then n + 1 else if even n then n else n + 1)"

text \<open>
  Rounding to nearest, ties to even, with a significand of 53 bits and the smallest exponent
  of the subnormal doubles; and the double that an exact result becomes, an infinity when
  the rounded value is out of range.
\<close>

definition round_double :: "rat \<Rightarrow> rat" where
  "round_double x =
    (if x = 0 then 0
     else let q = max (ilog2 \<bar>x\<bar> - 52) (- 1074);
              n = round_half_even (\<bar>x\<bar> / pow2 q)
          in sgn x * of_int n * pow2 q)"

definition to_double :: "rat \<Rightarrow> jsnum" where
  "to_double x =
    (let r = round_double x
     in if pow2 1024 \<le> r then PosInf else if r \<le> - pow2 1024 then NegInf else Num r)"

fun fneg :: "jsnum \<Rightarrow> jsnum" where
  "fneg (Num a) = Num (- a)"
| "fneg PosInf = NegInf"
| "fneg NegInf = PosInf"
| "fneg NaN = NaN"

text \<open>\<open>x + y\<close>, \<open>x - y\<close>, \<open>x * y\<close>, \<open>x / y\<close> and \<open>x > 0\<close> on numbers.\<close>

fun fadd :: "jsnum \<Rightarrow> jsnum \<Rightarrow> jsnum" where
  "fadd (Num a) (Num b) = to_double (a + b)"
| "fadd NaN y = NaN"
| "fadd x NaN = NaN"
| "fadd PosInf NegInf = NaN"
| "fadd NegInf PosInf = NaN"
| "fadd PosInf y = PosInf"
| "fadd x PosInf = PosInf"
| "fadd NegInf y = NegInf"
| "fadd x NegInf = NegInf"

definition fsub :: "jsnum \<Rightarrow> jsnum \<Rightarrow> jsnum" where
  "fsub x y = fadd x (fneg y)"

definition signed_inf :: "bool \<Rightarrow> jsnum" where
  "signed_inf positive = (if positive then PosInf else NegInf)"

fun fmul :: "jsnum \<Rightarrow> jsnum \<Rightarrow> jsnum" where
  "fmul (Num a) (Num b) = to_double (a * b)"
| "fmul NaN y = NaN"
| "fmul x NaN = NaN"
| "fmul PosInf (Num b) = (if b = 0 then NaN else signed_inf (0 < b))"
| "fmul NegInf (Num b) = (if b = 0 then NaN else signed_inf (b < 0))"
| "fmul (Num a) PosInf = (if a = 0 then NaN else signed_inf (0 < a))"
| "fmul (Num a) NegInf = (if a = 0 then NaN else signed_inf (a < 0))"
| "fmul PosInf PosInf = PosInf"
| "fmul NegInf NegInf = PosInf"
| "fmul PosInf NegInf = NegInf"
| "fmul NegInf PosInf = NegInf"

fun fdiv :: "jsnum \<Rightarrow> jsnum \<Rightarrow> jsnum" where
  "fdiv (Num a) (Num b) =
     (if b = 0 then (if a = 0 then NaN else signed_inf (0 < a)) else to_double (a / b))"
| "fdiv NaN y = NaN"
| "fdiv x NaN = NaN"
| "fdiv (Num a) PosInf = Num 0"
| "fdiv (Num a) NegInf = Num 0"
| "fdiv PosInf (Num b) = signed_inf (0 \<le> b)"
| "fdiv NegInf (Num b) = signed_inf (b < 0)"
| "fdiv PosInf PosInf = NaN"
| "fdiv PosInf NegInf = NaN"
| "fdiv NegInf PosInf = NaN"
| "fdiv NegInf NegInf = NaN"

fun gt0 :: "jsnum \<Rightarrow> bool" where
  "gt0 (Num a) = (0 < a)"
| "gt0 PosInf = True"
| "gt0 NegInf = False"
| "gt0 NaN = False"

section \<open>Normalisation at the read boundary (src/services/dataService.ts, fetchData)\<close>

text \<open>\<open>c => ({...c, isActive: c.isActive !== false})\<close>\<close>

definition normalize_client :: "Client \<Rightarrow> Client" where
  "normalize_client c = c\<lparr>c_isActive := Some (c_isActive c \<noteq> Some False)\<rparr>"

section \<open>Per-client financials (Clients component, getClientFinancials)\<close>

record financials =
  netPaid :: jsnum
  due :: jsnum
  billed :: jsnum

definition getClientFinancials :: "AppData \<Rightarrow> string \<Rightarrow> financials" where
  "getClientFinancials d clientId =
    (let clientPayments = filter (\<lambda>p. p_clientId p = clientId) (payments d);
         received = foldl (\<lambda>sum p. fadd sum (Num (p_amount p))) (Num 0)
                      (filter (\<lambda>p. p_type p \<noteq> Some REFUND) clientPayments);
         refunded = foldl (\<lambda>sum p. fadd sum (Num (p_amount p))) (Num 0)
                      (filter (\<lambda>p. p_type p = Some REFUND) clientPayments);
         netPaid = fsub received refunded;
         client = find (\<lambda>c. c_id c = clientId) (clients d);
         billed = Num (num_or0 (case client of None \<Rightarrow> None | Some c \<Rightarrow> c_totalBilled c));
         due = fsub billed netPaid
     in \<lparr>netPaid = netPaid, due = due, billed = billed\<rparr>)"

section \<open>Dashboard statistics (Dashboard component, stats)\<close>

record stats =
  totalIncome :: jsnum
  totalExpenses :: jsnum
  netProfit :: jsnum
  margin :: jsnum
  totalDue :: jsnum

definition dashboardStats :: "AppData \<Rightarrow> stats" where
  "dashboardStats d =
    (let totalIncome = foldl (\<lambda>sum p. if p_type p = Some REFUND then fsub sum (Num (p_amount p))
                                         else fadd sum (Num (p_amount p))) (Num 0) (payments d);
         totalExpenses = foldl (\<lambda>sum e. fadd sum (Num (e_amount e))) (Num 0) (expenses d);
         netProfit = fsub totalIncome totalExpenses;
         margin = (if gt0 totalIncome then fmul (fdiv netProfit totalIncome) (Num 100) else Num 0);
         totalDue = foldl (\<lambda>sum client.
             let clientPayments = filter (\<lambda>p. p_clientId p = c_id client) (payments d);
                 paid = foldl (\<lambda>acc p. if p_type p = Some REFUND then fsub acc (Num (p_amount p))
                                          else fadd acc (Num (p_amount p))) (Num 0) clientPayments;
                 billed = Num (num_or0 (c_totalBilled client));
                 due = fsub billed paid
             in fadd sum (if gt0 due then due else Num 0)) (Num 0) (clients d)
     in \<lparr>totalIncome = totalIncome, totalExpenses = totalExpenses, netProfit = netProfit,
         margin = margin, totalDue = totalDue\<rparr>)"

text \<open>
  For stating what these compute: the sum of a list of amounts as \<open>reduce((sum, x) => sum + x,
  0)\<close> computes it, and the running total of a list of payments as the dashboard computes
  it, a REFUND subtracted and any other payment added, in list order.
\<close>

definition js_sum :: "rat list \<Rightarrow> jsnum" where
  "js_sum xs = foldl (\<lambda>sum x. fadd sum (Num x)) (Num 0) xs"

definition js_signed_total :: "Payment list \<Rightarrow> jsnum" where
  "js_signed_total ps =
     foldl (\<lambda>acc p. if p_type p = Some REFUND then fsub acc (Num (p_amount p))
                      else fadd acc (Num (p_amount p))) (Num 0) ps"

text \<open>
  The figures as the spec words them, in exact arithmetic: net paid is the sum of the
  RECEIVED amounts minus the sum of the REFUND amounts of the client's payments, due is
  \<open>totalBilled\<close> minus net paid, and the total outstanding is the sum of the positive dues.
\<close>

definition spec_netPaid :: "AppData \<Rightarrow> string \<Rightarrow> rat" where
  "spec_netPaid d clientId =
     sum_list (map p_amount (filter (\<lambda>p. p_clientId p = clientId \<and>
                                 (p_type p = Some RECEIVED \<or> p_type p = None)) (payments d)))
   - sum_list (map p_amount (filter (\<lambda>p. p_clientId p = clientId \<and> p_type p = Some REFUND)
                                 (payments d)))"

definition spec_totalOutstanding :: "AppData \<Rightarrow> rat" where
  "spec_totalOutstanding d =
     sum_list (map (\<lambda>c. max 0 (num_or0 (c_totalBilled c) - spec_netPaid d (c_id c))) (clients d))"

text \<open>
  A ledger on which no operation rounds: every amount and every \<open>totalBilled\<close> is a whole
  number, none negative, and the sum of the \<open>totalBilled\<close> plus the sum of the amounts, taken
  once more than there are clients, is below \<open>2^53\<close>.
\<close>

definition whole :: "rat \<Rightarrow> bool" where
  "whole x = (of_int \<lfloor>x\<rfloor> = x \<and> 0 \<le> x)"

definition whole_amounts :: "AppData \<Rightarrow> bool" where
  "whole_amounts d =
    ((\<forall>p \<in> set (payments d). whole (p_amount p)) \<and>
     (\<forall>c \<in> set (clients d). whole (num_or0 (c_totalBilled c))) \<and>
     sum_list (map (\<lambda>c. num_or0 (c_totalBilled c)) (clients d))
       + of_nat (Suc (length (clients d))) * sum_list (map p_amount (payments d)) < 2 ^ 53)"

section \<open>Report computation (src/components/Reports.tsx, reportData)\<close>

record clientContext =
  cc_name :: string
  cc_company :: "string option"
  cc_totalBilled :: number
  cc_totalPaidAllTime :: number
  cc_currentDue :: number

text \<open>
  \<open>methodBreakdown\<close> is a JavaScript object used as a dictionary; its keys keep insertion
  order, so it is an association list.
\<close>

fun bump :: "string \<Rightarrow> number \<Rightarrow> (string \<times> number) list \<Rightarrow> (string \<times> number) list" where
  "bump m amt [] = [(m, 0 + amt)]"
| "bump m amt ((k, v) # kvs) = (if k = m then (k, v + amt) # kvs else (k, v) # bump m amt kvs)"

record report =
  r_payments :: "Payment list"
  r_expenses :: "Expense list"
  r_totalReceived :: number
  r_totalRefunded :: number
  r_netIncome :: number
  r_totalExpenses :: number
  r_netProfit :: number
  r_clientContext :: "clientContext option"
  r_methodBreakdown :: "(string \<times> number) list"

definition reportData ::
  "(string \<Rightarrow> string \<Rightarrow> int) \<Rightarrow> AppData \<Rightarrow> string \<Rightarrow> string \<Rightarrow> string \<Rightarrow> string \<Rightarrow> report" where
  "reportData lc d startDate endDate selectedClientId methodFilter =
    (let filteredPayments = js_sort (\<lambda>a b. lc (p_date a) (p_date b))
           (filter (\<lambda>p.
              let dateMatch = (p_date p \<ge> startDate \<and> p_date p \<le> endDate);
                  clientMatch = (selectedClientId = ''ALL'' \<or> p_clientId p = selectedClientId);
                  methodMatch = (methodFilter = ''ALL'' \<or> str_or (p_method p) ''Cash'' = methodFilter)
              in dateMatch \<and> clientMatch \<and> methodMatch) (payments d));
         filteredExpenses =
           (if selectedClientId = ''ALL'' \<and> methodFilter = ''ALL''
            then js_sort (\<lambda>a b. lc (e_date a) (e_date b))
                   (filter (\<lambda>e. e_date e \<ge> startDate \<and> e_date e \<le> endDate) (expenses d))
            else []);
         totalReceived = foldl (\<lambda>sum p. sum + p_amount p) 0
                           (filter (\<lambda>p. p_type p \<noteq> Some REFUND) filteredPayments);
         totalRefunded = foldl (\<lambda>sum p. sum + p_amount p) 0
                           (filter (\<lambda>p. p_type p = Some REFUND) filteredPayments);
         netIncome = totalReceived - totalRefunded;
         totalExpenses = foldl (\<lambda>sum e. sum + e_amount e) 0 filteredExpenses;
         netProfit = netIncome - totalExpenses;
         methodBreakdown =
           (if methodFilter = ''ALL''
            then foldl (\<lambda>mb p. bump (str_or (p_method p) ''Cash'')
                                  (if p_type p = Some REFUND then - p_amount p else p_amount p) mb)
                   [] filteredPayments
            else []);
         clientContext =
           (if selectedClientId \<noteq> ''ALL''
            then (case find (\<lambda>c. c_id c = selectedClientId) (clients d) of
                    None \<Rightarrow> None
                  | Some client \<Rightarrow>
                      let allClientPayments = filter (\<lambda>p. p_clientId p = c_id client) (payments d);
                          allPaid = foldl (\<lambda>acc p. if p_type p = Some REFUND then acc - p_amount p
                                                     else acc + p_amount p) 0 allClientPayments
                      in Some \<lparr>cc_name = c_name client, cc_company = c_company client,
                               cc_totalBilled = num_or0 (c_totalBilled client),
                               cc_totalPaidAllTime = allPaid,
                               cc_currentDue = num_or0 (c_totalBilled client) - allPaid\<rparr>)
            else None)
     in \<lparr>r_payments = filteredPayments, r_expenses = filteredExpenses,
         r_totalReceived = totalReceived, r_totalRefunded = totalRefunded,
         r_netIncome = netIncome, r_totalExpenses = totalExpenses, r_netProfit = netProfit,
         r_clientContext = clientContext, r_methodBreakdown = methodBreakdown\<rparr>)"



section \<open>The mutable store\<close>

text \<open>
  JavaScript arrays and objects have identity: \<open>{ ...data }\<close> copies the three fields of an
  \<open>AppData\<close> object but shares its arrays, \<open>push\<close> and \<open>sort\<close> change an array in place,
  and \<open>getLocalData\<close> hands out the module constant \<open>DEFAULT_DATA\<close> itself when nothing is
  stored. So arrays and \<open>AppData\<close> objects live in a store, addressed by references; an
  allocation takes the next unused address.
\<close>

type_synonym ref = nat

record AppDataObj =
  clientsR :: ref
  paymentsR :: ref
  expensesR :: ref

text \<open>
  The entry \<open>biztrack_data_v1\<close> of \<open>localStorage\<close>: the JSON text of an \<open>AppData\<close>, or some
  other non-empty text, on which the read fails.
\<close>

datatype stored = Json AppData | Garbage

text \<open>The requests the data service sends to the remote store (the Supabase client calls).\<close>

datatype request =
    SelectClients | SelectPayments | SelectExpenses
  | InsertClient Client | UpdateClient string Client
  | InsertPayment Payment | UpdatePayment string Payment | DeletePayment string
  | InsertExpense Expense | DeleteExpense string
  | UpsertClients "Client list" | UpsertPayments "Payment list" | UpsertExpenses "Expense list"
  | DeleteAllPayments | DeleteAllExpenses | DeleteAllClients

text \<open>
  The remote store is an external collaborator, so its behaviour is a parameter: a state
  \<open>'s\<close>, the answer \<open>{data, error}\<close> to each select (an error is its message), and the
  answer \<open>{error}\<close> with the new state for each write.
\<close>

record 's supabase =
  selectClients :: "'s \<Rightarrow> Client list option \<times> string option"
  selectPayments :: "'s \<Rightarrow> Payment list option \<times> string option"
  selectExpenses :: "'s \<Rightarrow> Expense list option \<times> string option"
  execute :: "request \<Rightarrow> 's \<Rightarrow> string option \<times> 's"

text \<open>
  Everything the application can read or change: the store, \<open>localStorage\<close> (the data entry,
  whether the browser refuses a write to it, the two connection settings), the remote state,
  and the React state of \<open>App\<close> (\<open>data\<close>, \<open>hasConnectionError\<close>). \<open>requests\<close> and
  \<open>alerts\<close> record, in order, the requests sent and the messages shown by \<open>alert\<close>.
\<close>

record 's world =
  objs :: "ref \<Rightarrow> AppDataObj"
  carr :: "ref \<Rightarrow> Client list"
  parr :: "ref \<Rightarrow> Payment list"
  earr :: "ref \<Rightarrow> Expense list"
  fresh :: ref
  storage :: "stored option"
  quota_exceeded :: bool
  sb_url :: "string option"
  sb_key :: "string option"
  remote :: 's
  requests :: "request list"
  alerts :: "string list"
  data :: ref
  hasConnectionError :: bool

definition new_obj :: "AppDataObj \<Rightarrow> 's world \<Rightarrow> ref \<times> 's world" where
  "new_obj v w = (fresh w, w\<lparr>objs := (objs w)(fresh w := v), fresh := Suc (fresh w)\<rparr>)"

definition new_clients :: "Client list \<Rightarrow> 's world \<Rightarrow> ref \<times> 's world" where
  "new_clients v w = (fresh w, w\<lparr>carr := (carr w)(fresh w := v), fresh := Suc (fresh w)\<rparr>)"

definition new_payments :: "Payment list \<Rightarrow> 's world \<Rightarrow> ref \<times> 's world" where
  "new_payments v w = (fresh w, w\<lparr>parr := (parr w)(fresh w := v), fresh := Suc (fresh w)\<rparr>)"

definition new_expenses :: "Expense list \<Rightarrow> 's world \<Rightarrow> ref \<times> 's world" where
  "new_expenses v w = (fresh w, w\<lparr>earr := (earr w)(fresh w := v), fresh := Suc (fresh w)\<rparr>)"

text \<open>What an \<open>AppData\<close> object holds now, and the Ledger Store: what the state \<open>data\<close> holds.\<close>

definition contents :: "'s world \<Rightarrow> ref \<Rightarrow> AppData" where
  "contents w r = \<lparr>clients = carr w (clientsR (objs w r)),
                   payments = parr w (paymentsR (objs w r)),
                   expenses = earr w (expensesR (objs w r))\<rparr>"

definition ledger :: "'s world \<Rightarrow> AppData" where
  "ledger w = contents w (data w)"

text \<open>An object literal with three array values: three new arrays and a new object.\<close>

definition new_appdata :: "AppData \<Rightarrow> 's world \<Rightarrow> ref \<times> 's world" where
  "new_appdata v w =
    (let (c, w1) = new_clients (clients v) w;
         (p, w2) = new_payments (payments v) w1;
         (e, w3) = new_expenses (expenses v) w2
     in new_obj \<lparr>clientsR = c, paymentsR = p, expensesR = e\<rparr> w3)"

section \<open>Backend selection (src/lib/supabaseClient.ts)\<close>

text \<open>
  \<open>getSupabaseClient\<close> returns a client when \<open>url && key\<close>, else \<open>null\<close>; the model returns
  whether there is a client. The construction of the client itself is taken to succeed.
\<close>

definition truthy :: "string option \<Rightarrow> bool" where
  "truthy x = (case x of None \<Rightarrow> False | Some s \<Rightarrow> s \<noteq> [])"

definition getSupabaseClient :: "'s world \<Rightarrow> bool" where
  "getSupabaseClient w = (truthy (sb_url w) \<and> truthy (sb_key w))"

definition send :: "'s supabase \<Rightarrow> request \<Rightarrow> 's world \<Rightarrow> string option \<times> 's world" where
  "send sb rq w =
    (let (error, s) = execute sb rq (remote w)
     in (error, w\<lparr>remote := s, requests := requests w @ [rq]\<rparr>))"

section \<open>The data service (src/services/dataService.ts)\<close>

text \<open>
  A call returns \<open>Inl message\<close> when it throws (its promise rejects) and \<open>Inr\<close> otherwise,
  together with the world as the call leaves it: what was changed before a throw stays
  changed.
\<close>

definition DEFAULT_DATA :: ref where
  "DEFAULT_DATA = 0"

definition getLocalData :: "'s world \<Rightarrow> (string + ref) \<times> 's world" where
  "getLocalData w =
    (case storage w of
       None \<Rightarrow> (Inr DEFAULT_DATA, w)
     | Some Garbage \<Rightarrow> (Inl ''SyntaxError'', w)
     | Some (Json v) \<Rightarrow> (let (r, w1) = new_appdata v w in (Inr r, w1)))"

definition saveLocalData :: "AppData \<Rightarrow> 's world \<Rightarrow> (string + unit) \<times> 's world" where
  "saveLocalData v w =
    (if quota_exceeded w then (Inl ''QuotaExceededError'', w)
     else (Inr (), w\<lparr>storage := Some (Json v)\<rparr>))"

text \<open>
  \<open>const local = getLocalData(); local.clients = local.clients.map(c => ({...c, isActive:
  c.isActive !== false})); return local;\<close> (written twice in \<open>fetchData\<close>)
\<close>

definition localNormalized :: "'s world \<Rightarrow> (string + ref) \<times> 's world" where
  "localNormalized w =
    (case getLocalData w of
       (Inl e, w1) \<Rightarrow> (Inl e, w1)
     | (Inr local, w1) \<Rightarrow>
         (let (c, w2) = new_clients (map normalize_client (carr w1 (clientsR (objs w1 local)))) w1
          in (Inr local, w2\<lparr>objs := (objs w2)(local := (objs w2 local)\<lparr>clientsR := c\<rparr>)\<rparr>)))"

definition connectionWarning :: "string \<Rightarrow> string" where
  "connectionWarning message =
     ''Connection Warning: Could not fetch data from cloud. '' @ [CHR 0x0A, CHR 0x0A] @
     ''Error: '' @ str_or (Some message) ''Unknown error'' @ [CHR 0x0A, CHR 0x0A] @
     ''Tip: Check if Row Level Security (RLS) is disabled in your Supabase Table settings.''"

text \<open>\<open>x.data || []\<close>\<close>

definition rows :: "'a list option \<Rightarrow> 'a list" where
  "rows x = (case x of None \<Rightarrow> [] | Some xs \<Rightarrow> xs)"

text \<open>The \<open>catch\<close> block of \<open>fetchData\<close>.\<close>

definition fetchCatch :: "string \<Rightarrow> 's world \<Rightarrow> (string + ref) \<times> 's world" where
  "fetchCatch error w = localNormalized (w\<lparr>alerts := alerts w @ [connectionWarning error]\<rparr>)"

definition fetchData :: "'s supabase \<Rightarrow> 's world \<Rightarrow> (string + ref) \<times> 's world" where
  "fetchData sb w =
    (if getSupabaseClient w then
       (let cs = selectClients sb (remote w);
            ps = selectPayments sb (remote w);
            es = selectExpenses sb (remote w);
            w0 = w\<lparr>requests := requests w @ [SelectClients, SelectPayments, SelectExpenses]\<rparr>
        in case snd cs of Some error \<Rightarrow> fetchCatch error w0 | None \<Rightarrow>
          (case snd ps of Some error \<Rightarrow> fetchCatch error w0 | None \<Rightarrow>
          (case snd es of Some error \<Rightarrow> fetchCatch error w0 | None \<Rightarrow>
             (let (r, w1) = new_appdata \<lparr>clients = map normalize_client (rows (fst cs)),
                                         payments = rows (fst ps),
                                         expenses = rows (fst es)\<rparr> w0
              in (Inr r, w1)))))
     else localNormalized w)"

text \<open>
  The error that the \<open>try\<close> block of \<open>fetchData\<close> throws, if any: the first error among the
  three answers, in the order of the three \<open>if (x.error) throw x.error\<close>.
\<close>

definition fetchError :: "'s supabase \<Rightarrow> 's \<Rightarrow> string option" where
  "fetchError sb s =
    (case snd (selectClients sb s) of Some e \<Rightarrow> Some e | None \<Rightarrow>
    (case snd (selectPayments sb s) of Some e \<Rightarrow> Some e | None \<Rightarrow> snd (selectExpenses sb s)))"

definition dataService_addClient :: "'s supabase \<Rightarrow> Client \<Rightarrow> 's world \<Rightarrow> (string + unit) \<times> 's world" where
  "dataService_addClient sb client w =
    (if getSupabaseClient w then
       (case send sb (InsertClient client) w of
          (Some message, w1) \<Rightarrow>
            (Inl (''Failed to save client: '' @ message @ '' (Check RLS Policies)''), w1)
        | (None, w1) \<Rightarrow> (Inr (), w1))
     else
       (case getLocalData w of
          (Inl e, w1) \<Rightarrow> (Inl e, w1)
        | (Inr d, w1) \<Rightarrow>
            (let a = clientsR (objs w1 d);
                 w2 = w1\<lparr>carr := (carr w1)(a := carr w1 a @ [client])\<rparr>
             in saveLocalData (contents w2 d) w2)))"

definition dataService_updateClient :: "'s supabase \<Rightarrow> Client \<Rightarrow> 's world \<Rightarrow> (string + unit) \<times> 's world" where
  "dataService_updateClient sb client w =
    (if getSupabaseClient w then
       (case send sb (UpdateClient (c_id client) client) w of
          (Some message, w1) \<Rightarrow> (Inl (''Failed to update client: '' @ message), w1)
        | (None, w1) \<Rightarrow> (Inr (), w1))
     else
       (case getLocalData w of
          (Inl e, w1) \<Rightarrow> (Inl e, w1)
        | (Inr d, w1) \<Rightarrow>
            (let (a, w2) = new_clients (map (\<lambda>c. if c_id c = c_id client then client else c)
                                          (carr w1 (clientsR (objs w1 d)))) w1;
                 w3 = w2\<lparr>objs := (objs w2)(d := (objs w2 d)\<lparr>clientsR := a\<rparr>)\<rparr>
             in saveLocalData (contents w3 d) w3)))"

definition dataService_addPayment :: "'s supabase \<Rightarrow> Payment \<Rightarrow> 's world \<Rightarrow> (string + unit) \<times> 's world" where
  "dataService_addPayment sb payment w =
    (if getSupabaseClient w then
       (case send sb (InsertPayment payment) w of
          (Some message, w1) \<Rightarrow>
            (Inl (''Failed to save payment: '' @ message @ '' (Check RLS Policies)''), w1)
        | (None, w1) \<Rightarrow> (Inr (), w1))
     else
       (case getLocalData w of
          (Inl e, w1) \<Rightarrow> (Inl e, w1)
        | (Inr d, w1) \<Rightarrow>
            (let a = paymentsR (objs w1 d);
                 w2 = w1\<lparr>parr := (parr w1)(a := parr w1 a @ [payment])\<rparr>
             in saveLocalData (contents w2 d) w2)))"

definition dataService_updatePayment :: "'s supabase \<Rightarrow> Payment \<Rightarrow> 's world \<Rightarrow> (string + unit) \<times> 's world" where
  "dataService_updatePayment sb payment w =
    (if getSupabaseClient w then
       (case send sb (UpdatePayment (p_id payment) payment) w of
          (Some message, w1) \<Rightarrow> (Inl (''Failed to update payment: '' @ message), w1)
        | (None, w1) \<Rightarrow> (Inr (), w1))
     else
       (case getLocalData w of
          (Inl e, w1) \<Rightarrow> (Inl e, w1)
        | (Inr d, w1) \<Rightarrow>
            (let (a, w2) = new_payments (map (\<lambda>p. if p_id p = p_id payment then payment else p)
                                           (parr w1 (paymentsR (objs w1 d)))) w1;
                 w3 = w2\<lparr>objs := (objs w2)(d := (objs w2 d)\<lparr>paymentsR := a\<rparr>)\<rparr>
             in saveLocalData (contents w3 d) w3)))"

definition dataService_deletePayment :: "'s supabase \<Rightarrow> string \<Rightarrow> 's world \<Rightarrow> (string + unit) \<times> 's world" where
  "dataService_deletePayment sb ident w =
    (if getSupabaseClient w then
       (case send sb (DeletePayment ident) w of
          (Some message, w1) \<Rightarrow> (Inl (''Failed to delete payment: '' @ message), w1)
        | (None, w1) \<Rightarrow> (Inr (), w1))
     else
       (case getLocalData w of
          (Inl e, w1) \<Rightarrow> (Inl e, w1)
        | (Inr d, w1) \<Rightarrow>
            (let (a, w2) = new_payments (filter (\<lambda>p. p_id p \<noteq> ident)
                                           (parr w1 (paymentsR (objs w1 d)))) w1;
                 w3 = w2\<lparr>objs := (objs w2)(d := (objs w2 d)\<lparr>paymentsR := a\<rparr>)\<rparr>
             in saveLocalData (contents w3 d) w3)))"

definition dataService_addExpense :: "'s supabase \<Rightarrow> Expense \<Rightarrow> 's world \<Rightarrow> (string + unit) \<times> 's world" where
  "dataService_addExpense sb expense w =
    (if getSupabaseClient w then
       (case send sb (InsertExpense expense) w of
          (Some message, w1) \<Rightarrow>
            (Inl (''Failed to save expense: '' @ message @ '' (Check RLS Policies)''), w1)
        | (None, w1) \<Rightarrow> (Inr (), w1))
     else
       (case getLocalData w of
          (Inl e, w1) \<Rightarrow> (Inl e, w1)
        | (Inr d, w1) \<Rightarrow>
            (let a = expensesR (objs w1 d);
                 w2 = w1\<lparr>earr := (earr w1)(a := earr w1 a @ [expense])\<rparr>
             in saveLocalData (contents w2 d) w2)))"

definition dataService_deleteExpense :: "'s supabase \<Rightarrow> string \<Rightarrow> 's world \<Rightarrow> (string + unit) \<times> 's world" where
  "dataService_deleteExpense sb ident w =
    (if getSupabaseClient w then
       (case send sb (DeleteExpense ident) w of
          (Some message, w1) \<Rightarrow> (Inl (''Failed to delete expense: '' @ message), w1)
        | (None, w1) \<Rightarrow> (Inr (), w1))
     else
       (case getLocalData w of
          (Inl e, w1) \<Rightarrow> (Inl e, w1)
        | (Inr d, w1) \<Rightarrow>
            (let (a, w2) = new_expenses (filter (\<lambda>e. e_id e \<noteq> ident)
                                           (earr w1 (expensesR (objs w1 d)))) w1;
                 w3 = w2\<lparr>objs := (objs w2)(d := (objs w2 d)\<lparr>expensesR := a\<rparr>)\<rparr>
             in saveLocalData (contents w3 d) w3)))"

text \<open>\<open>if (xs.length) { const { error } = await upsert(xs); if (error) throw error; }\<close>\<close>

definition upsertIfAny :: "'s supabase \<Rightarrow> bool \<Rightarrow> request \<Rightarrow> 's world \<Rightarrow> string option \<times> 's world" where
  "upsertIfAny sb nonempty rq w = (if nonempty then send sb rq w else (None, w))"

definition dataService_importData :: "'s supabase \<Rightarrow> AppData \<Rightarrow> 's world \<Rightarrow> (string + unit) \<times> 's world" where
  "dataService_importData sb newData w =
    (if getSupabaseClient w then
       (case upsertIfAny sb (clients newData \<noteq> []) (UpsertClients (clients newData)) w of
          (Some error, w1) \<Rightarrow> (Inl error, w1)
        | (None, w1) \<Rightarrow>
       (case upsertIfAny sb (payments newData \<noteq> []) (UpsertPayments (payments newData)) w1 of
          (Some error, w2) \<Rightarrow> (Inl error, w2)
        | (None, w2) \<Rightarrow>
       (case upsertIfAny sb (expenses newData \<noteq> []) (UpsertExpenses (expenses newData)) w2 of
          (Some error, w3) \<Rightarrow> (Inl error, w3)
        | (None, w3) \<Rightarrow> (Inr (), w3))))
     else saveLocalData newData w)"

definition dataService_clearData :: "'s supabase \<Rightarrow> 's world \<Rightarrow> (string + unit) \<times> 's world" where
  "dataService_clearData sb w =
    (if getSupabaseClient w then
       (let (e1, w1) = send sb DeleteAllPayments w;
            (e2, w2) = send sb DeleteAllExpenses w1;
            (e3, w3) = send sb DeleteAllClients w2
        in if e1 \<noteq> None \<or> e2 \<noteq> None \<or> e3 \<noteq> None
           then (Inl ''Failed to clear some cloud data. Check RLS.'', w3)
           else (Inr (), w3))
     else (Inr (), w\<lparr>storage := None\<rparr>))"

section \<open>The optimistic mutation coordinator (src/App.tsx)\<close>

text \<open>
  Each handler runs alone, from its call to the end of its \<open>try\<close>/\<open>catch\<close>: the \<open>data\<close>
  it closes over is the current state, and \<open>setData\<close> takes effect at once.
  \<open>const prevData = { ...data }\<close> is a new object with the same three arrays;
  \<open>setData(prev => ({ ...prev, clients: [...prev.clients, client] }))\<close> is a new array in a new
  object.
\<close>

definition loadData :: "'s supabase \<Rightarrow> 's world \<Rightarrow> 's world" where
  "loadData sb w =
    (case fetchData sb (w\<lparr>hasConnectionError := False\<rparr>) of
       (Inr fetchedData, w1) \<Rightarrow> w1\<lparr>data := fetchedData\<rparr>
     | (Inl e, w1) \<Rightarrow> w1\<lparr>hasConnectionError := True\<rparr>)"

text \<open>The \<open>try\<close>/\<open>catch\<close> shared by the seven handlers: \<open>alert(error.message); setData(prevData)\<close>.\<close>

definition rollbackOnError :: "ref \<Rightarrow> (string + unit) \<times> 's world \<Rightarrow> 's world" where
  "rollbackOnError prevData res =
    (case res of
       (Inr u, w) \<Rightarrow> w
     | (Inl message, w) \<Rightarrow> w\<lparr>alerts := alerts w @ [message], data := prevData\<rparr>)"

definition addClient :: "'s supabase \<Rightarrow> Client \<Rightarrow> 's world \<Rightarrow> 's world" where
  "addClient sb client w =
    (let (prevData, w1) = new_obj (objs w (data w)) w;
         prev = objs w1 (data w1);
         (a, w2) = new_clients (carr w1 (clientsR prev) @ [client]) w1;
         (n, w3) = new_obj (prev\<lparr>clientsR := a\<rparr>) w2
     in rollbackOnError prevData (dataService_addClient sb client (w3\<lparr>data := n\<rparr>)))"

definition updateClient :: "'s supabase \<Rightarrow> Client \<Rightarrow> 's world \<Rightarrow> 's world" where
  "updateClient sb updatedClient w =
    (let (prevData, w1) = new_obj (objs w (data w)) w;
         prev = objs w1 (data w1);
         (a, w2) = new_clients (map (\<lambda>c. if c_id c = c_id updatedClient then updatedClient else c)
                                  (carr w1 (clientsR prev))) w1;
         (n, w3) = new_obj (prev\<lparr>clientsR := a\<rparr>) w2
     in rollbackOnError prevData (dataService_updateClient sb updatedClient (w3\<lparr>data := n\<rparr>)))"

definition addPayment :: "'s supabase \<Rightarrow> Payment \<Rightarrow> 's world \<Rightarrow> 's world" where
  "addPayment sb payment w =
    (let (prevData, w1) = new_obj (objs w (data w)) w;
         prev = objs w1 (data w1);
         (a, w2) = new_payments (parr w1 (paymentsR prev) @ [payment]) w1;
         (n, w3) = new_obj (prev\<lparr>paymentsR := a\<rparr>) w2
     in rollbackOnError prevData (dataService_addPayment sb payment (w3\<lparr>data := n\<rparr>)))"

definition updatePayment :: "'s supabase \<Rightarrow> Payment \<Rightarrow> 's world \<Rightarrow> 's world" where
  "updatePayment sb payment w =
    (let (prevData, w1) = new_obj (objs w (data w)) w;
         prev = objs w1 (data w1);
         (a, w2) = new_payments (map (\<lambda>p. if p_id p = p_id payment then payment else p)
                                   (parr w1 (paymentsR prev))) w1;
         (n, w3) = new_obj (prev\<lparr>paymentsR := a\<rparr>) w2
     in rollbackOnError prevData (dataService_updatePayment sb payment (w3\<lparr>data := n\<rparr>)))"

definition deletePayment :: "'s supabase \<Rightarrow> string \<Rightarrow> 's world \<Rightarrow> 's world" where
  "deletePayment sb ident w =
    (let (prevData, w1) = new_obj (objs w (data w)) w;
         prev = objs w1 (data w1);
         (a, w2) = new_payments (filter (\<lambda>p. p_id p \<noteq> ident) (parr w1 (paymentsR prev))) w1;
         (n, w3) = new_obj (prev\<lparr>paymentsR := a\<rparr>) w2
     in rollbackOnError prevData (dataService_deletePayment sb ident (w3\<lparr>data := n\<rparr>)))"

definition addExpense :: "'s supabase \<Rightarrow> Expense \<Rightarrow> 's world \<Rightarrow> 's world" where
  "addExpense sb expense w =
    (let (prevData, w1) = new_obj (objs w (data w)) w;
         prev = objs w1 (data w1);
         (a, w2) = new_expenses (earr w1 (expensesR prev) @ [expense]) w1;
         (n, w3) = new_obj (prev\<lparr>expensesR := a\<rparr>) w2
     in rollbackOnError prevData (dataService_addExpense sb expense (w3\<lparr>data := n\<rparr>)))"

definition deleteExpense :: "'s supabase \<Rightarrow> string \<Rightarrow> 's world \<Rightarrow> 's world" where
  "deleteExpense sb ident w =
    (let (prevData, w1) = new_obj (objs w (data w)) w;
         prev = objs w1 (data w1);
         (a, w2) = new_expenses (filter (\<lambda>e. e_id e \<noteq> ident) (earr w1 (expensesR prev))) w1;
         (n, w3) = new_obj (prev\<lparr>expensesR := a\<rparr>) w2
     in rollbackOnError prevData (dataService_deleteExpense sb ident (w3\<lparr>data := n\<rparr>)))"

definition importData :: "'s supabase \<Rightarrow> AppData \<Rightarrow> 's world \<Rightarrow> 's world" where
  "importData sb newData w =
    (case dataService_importData sb newData w of
       (Inr u, w1) \<Rightarrow> loadData sb w1
     | (Inl message, w1) \<Rightarrow> w1\<lparr>alerts := alerts w1 @ [''Import failed: '' @ message]\<rparr>)"

definition clearData :: "'s supabase \<Rightarrow> 's world \<Rightarrow> 's world" where
  "clearData sb w =
    (case dataService_clearData sb w of
       (Inr u, w1) \<Rightarrow> (let (n, w2) = new_appdata empty_ledger w1 in w2\<lparr>data := n\<rparr>)
     | (Inl message, w1) \<Rightarrow> w1\<lparr>alerts := alerts w1 @ [''Clear failed: '' @ message]\<rparr>)"

section \<open>The client list of the report page (src/components/Reports.tsx, clients)\<close>

text \<open>
  \<open>data.clients.sort((a, b) => a.name.localeCompare(b.name))\<close>, where \<open>data\<close> is the state of
  \<open>App\<close> passed down as a prop: the sort is applied to the array of the Ledger Store itself,
  and that same array is the result.
\<close>

definition Reports_clients :: "(string \<Rightarrow> string \<Rightarrow> int) \<Rightarrow> 's world \<Rightarrow> ref \<times> 's world" where
  "Reports_clients lc w =
    (let a = clientsR (objs w (data w))
     in (a, w\<lparr>carr := (carr w)(a := js_sort (\<lambda>x y. lc (c_name x) (c_name y)) (carr w a))\<rparr>))"

text \<open>The report of the page: \<open>reportData\<close> over what the state holds.\<close>

definition Reports_reportData ::
  "(string \<Rightarrow> string \<Rightarrow> int) \<Rightarrow> 's world \<Rightarrow> string \<Rightarrow> string \<Rightarrow> string \<Rightarrow> string \<Rightarrow> report" where
  "Reports_reportData lc w startDate endDate selectedClientId methodFilter =
     reportData lc (ledger w) startDate endDate selectedClientId methodFilter"

section \<open>Well-formed stores and the initial world\<close>

text \<open>
  Every address in use is below the next unused one: the state object, \<open>DEFAULT_DATA\<close>, and
  the arrays of both.
\<close>

definition well_formed :: "'s world \<Rightarrow> bool" where
  "well_formed w = (data w < fresh w \<and> DEFAULT_DATA < fresh w \<and>
           clientsR (objs w (data w)) < fresh w \<and>
           paymentsR (objs w (data w)) < fresh w \<and>
           expensesR (objs w (data w)) < fresh w \<and>
           clientsR (objs w DEFAULT_DATA) < fresh w \<and>
           paymentsR (objs w DEFAULT_DATA) < fresh w \<and>
           expensesR (objs w DEFAULT_DATA) < fresh w)"

text \<open>
  The world when \<open>App\<close> mounts: \<open>DEFAULT_DATA\<close> at address 0 with three empty arrays, the
  state \<open>useState<AppData>({ clients: [], payments: [], expenses: [] })\<close> at address 1 with
  three empty arrays of its own, and whatever the browser and the remote store hold.
\<close>

definition initial_world ::
  "stored option \<Rightarrow> bool \<Rightarrow> string option \<Rightarrow> string option \<Rightarrow> 's \<Rightarrow> 's world" where
  "initial_world st quota url key s =
    \<lparr>objs = (\<lambda>r. \<lparr>clientsR = r, paymentsR = r, expensesR = r\<rparr>),
     carr = (\<lambda>r. []), parr = (\<lambda>r. []), earr = (\<lambda>r. []),
     fresh = 2, storage = st, quota_exceeded = quota, sb_url = url, sb_key = key,
     remote = s, requests = [], alerts = [], data = 1, hasConnectionError = False\<rparr>"

section \<open>Example data\<close>

definition clientC :: Client where
  "clientC = \<lparr>c_id = ''C'', c_name = ''Zed Works'', c_email = ''zed@example.com'',
              c_phone = ''100'', c_company = None, c_notes = None, c_createdAt = 1,
              c_isActive = None, c_totalBilled = Some 1000\<rparr>"

definition clientA :: Client where
  "clientA = \<lparr>c_id = ''A'', c_name = ''Amy Ltd'', c_email = ''amy@example.com'',
              c_phone = ''200'', c_company = Some ''Amy'', c_notes = None, c_createdAt = 2,
              c_isActive = Some False, c_totalBilled = Some 50\<rparr>"

definition payment1 :: Payment where
  "payment1 = \<lparr>p_id = ''p1'', p_clientId = ''C'', p_amount = 400, p_date = ''2024-01-10'',
               p_description = None, p_method = None, p_details = None,
               p_type = Some RECEIVED\<rparr>"

definition payment2 :: Payment where
  "payment2 = \<lparr>p_id = ''p2'', p_clientId = ''C'', p_amount = 100, p_date = ''2024-01-05'',
               p_description = None, p_method = Some ''Bank'', p_details = None,
               p_type = Some REFUND\<rparr>"

definition payment3 :: Payment where
  "payment3 = \<lparr>p_id = ''p3'', p_clientId = ''A'', p_amount = 80, p_date = ''2024-01-20'',
               p_description = None, p_method = Some ''Bank'', p_details = None,
               p_type = None\<rparr>"

definition expense1 :: Expense where
  "expense1 = \<lparr>e_id = ''e1'', e_category = ''Travel'', e_amount = 30, e_date = ''2024-01-15'',
               e_description = ''Train''\<rparr>"

definition example_ledger :: AppData where
  "example_ledger = \<lparr>clients = [clientC, clientA], payments = [payment1, payment2, payment3],
                     expenses = [expense1]\<rparr>"

text \<open>
  A ledger whose amounts are not whole: one client billed 0.2, with a RECEIVED payment of
  0.1, a REFUND of 0.2 and a RECEIVED payment of 0.3, each the double nearest to the decimal.
\<close>

definition clientX :: Client where
  "clientX = \<lparr>c_id = ''X'', c_name = ''Xu'', c_email = ''xu@example.com'', c_phone = ''300'',
              c_company = None, c_notes = None, c_createdAt = 3, c_isActive = Some True,
              c_totalBilled = Some (round_double (1 / 5))\<rparr>"

definition paymentX :: "string \<Rightarrow> rat \<Rightarrow> ptype \<Rightarrow> Payment" where
  "paymentX i a t = \<lparr>p_id = i, p_clientId = ''X'', p_amount = round_double a,
                     p_date = ''2024-02-01'', p_description = None, p_method = Some ''Cash'',
                     p_details = None, p_type = Some t\<rparr>"

definition rounding_ledger :: AppData where
  "rounding_ledger =
     \<lparr>clients = [clientX],
      payments = [paymentX ''x1'' (1 / 10) RECEIVED, paymentX ''x2'' (1 / 5) REFUND,
                  paymentX ''x3'' (3 / 10) RECEIVED],
      expenses = []\<rparr>"

text \<open>
  The same client billed 0.8 and fully paid by two RECEIVED payments of 0.7 and 0.1.
\<close>

definition paid_up_ledger :: AppData where
  "paid_up_ledger =
     \<lparr>clients = [clientX\<lparr>c_totalBilled := Some (round_double (4 / 5))\<rparr>],
      payments = [paymentX ''y1'' (7 / 10) RECEIVED, paymentX ''y2'' (1 / 10) RECEIVED],
      expenses = []\<rparr>"

text \<open>
  A remote store for the examples: three tables, and an access policy \<open>deny\<close> that gives the
  error message of each refused request. A request that is not refused is applied to the
  tables.
\<close>

fun upsert_row :: "('a \<Rightarrow> string) \<Rightarrow> 'a \<Rightarrow> 'a list \<Rightarrow> 'a list" where
  "upsert_row key x [] = [x]"
| "upsert_row key x (y # ys) = (if key y = key x then x # ys else y # upsert_row key x ys)"

fun apply_request :: "request \<Rightarrow> AppData \<Rightarrow> AppData" where
  "apply_request (InsertClient c) s = s\<lparr>clients := clients s @ [c]\<rparr>"
| "apply_request (UpdateClient i c) s = s\<lparr>clients := map (\<lambda>x. if c_id x = i then c else x) (clients s)\<rparr>"
| "apply_request (InsertPayment p) s = s\<lparr>payments := payments s @ [p]\<rparr>"
| "apply_request (UpdatePayment i p) s = s\<lparr>payments := map (\<lambda>x. if p_id x = i then p else x) (payments s)\<rparr>"
| "apply_request (DeletePayment i) s = s\<lparr>payments := filter (\<lambda>x. p_id x \<noteq> i) (payments s)\<rparr>"
| "apply_request (InsertExpense e) s = s\<lparr>expenses := expenses s @ [e]\<rparr>"
| "apply_request (DeleteExpense i) s = s\<lparr>expenses := filter (\<lambda>x. e_id x \<noteq> i) (expenses s)\<rparr>"
| "apply_request (UpsertClients cs) s = s\<lparr>clients := foldl (\<lambda>t c. upsert_row c_id c t) (clients s) cs\<rparr>"
| "apply_request (UpsertPayments ps) s = s\<lparr>payments := foldl (\<lambda>t p. upsert_row p_id p t) (payments s) ps\<rparr>"
| "apply_request (UpsertExpenses es) s = s\<lparr>expenses := foldl (\<lambda>t e. upsert_row e_id e t) (expenses s) es\<rparr>"
| "apply_request DeleteAllPayments s = s\<lparr>payments := []\<rparr>"
| "apply_request DeleteAllExpenses s = s\<lparr>expenses := []\<rparr>"
| "apply_request DeleteAllClients s = s\<lparr>clients := []\<rparr>"
| "apply_request rq s = s"

definition table_store :: "(request \<Rightarrow> string option) \<Rightarrow> AppData supabase" where
  "table_store deny =
    \<lparr>selectClients = (\<lambda>s. case deny SelectClients of Some e \<Rightarrow> (None, Some e)
                                                     | None \<Rightarrow> (Some (clients s), None)),
     selectPayments = (\<lambda>s. case deny SelectPayments of Some e \<Rightarrow> (None, Some e)
                                                       | None \<Rightarrow> (Some (payments s), None)),
     selectExpenses = (\<lambda>s. case deny SelectExpenses of Some e \<Rightarrow> (None, Some e)
                                                       | None \<Rightarrow> (Some (expenses s), None)),
     execute = (\<lambda>rq s. case deny rq of Some e \<Rightarrow> (Some e, s)
                                     | None \<Rightarrow> (None, apply_request rq s))\<rparr>"

definition allow_all :: "request \<Rightarrow> string option" where
  "allow_all rq = None"

text \<open>A policy that refuses the listed requests, and the world of a browser that is connected.\<close>

definition deny_these :: "request list \<Rightarrow> string \<Rightarrow> request \<Rightarrow> string option" where
  "deny_these rs message rq = (if rq \<in> set rs then Some message else None)"

definition connected_world :: "stored option \<Rightarrow> AppData \<Rightarrow> AppData world" where
  "connected_world st s =
     initial_world st False (Some ''https://example.supabase.co'') (Some ''anon-key'') s"

section \<open>Sums and sorting\<close>


lemma mset_js_insert: "mset (js_insert cmp x xs) = add_mset x (mset xs)"
  by (induction xs) simp_all

lemma mset_js_sort: "mset (js_sort cmp xs) = mset xs"
  by (induction xs) (simp_all add: mset_js_insert)

lemma find_distinct:
  "distinct (map c_id cs) \<Longrightarrow> c \<in> set cs \<Longrightarrow> find (\<lambda>x. c_id x = c_id c) cs = Some c"
  by (induction cs) (auto simp: rev_image_eqI)

lemma not_refund_iff: "(t \<noteq> Some REFUND) = (t = Some RECEIVED \<or> t = None)"
  by (cases t) (auto intro: ptype.exhaust)

lemmas example_defs = example_ledger_def clientC_def clientA_def payment1_def payment2_def
  payment3_def expense1_def

section \<open>Double arithmetic\<close>

lemmas rounding_defs = rounding_ledger_def clientX_def paymentX_def

text \<open>Rounding leaves a whole number below \<open>2^53\<close> as it is, so sums of such numbers are exact.\<close>

lemma round_half_even_of_int: "round_half_even (of_int j) = j"
  by (simp add: round_half_even_def)

lemma bitlen_le_53:
  assumes "0 < k" "k < 2 ^ 53"
  shows "bitlen k \<le> 53"
proof -
  from bitlen_bounds[OF assms(1)] have "(2::int) ^ nat (bitlen k - 1) \<le> k" by simp
  with assms(2) have "(2::int) ^ nat (bitlen k - 1) < 2 ^ 53" by simp
  then have "nat (bitlen k - 1) < 53" by (rule power_less_imp_less_exp[rotated]) simp
  then show ?thesis by simp
qed

lemma round_double_of_int:
  assumes "\<bar>k\<bar> < 2 ^ 53"
  shows "round_double (of_int k) = of_int k"
proof (cases "k = 0")
  case True
  then show ?thesis by (simp add: round_double_def)
next
  case False
  define x :: rat where "x = of_int k"
  have ax: "\<bar>x\<bar> = of_int \<bar>k\<bar>" by (simp add: x_def)
  have pos: "0 < \<bar>k\<bar>" using False by simp
  have one: "1 \<le> \<bar>x\<bar>" using pos unfolding ax by (simp add: int_one_le_iff_zero_less)
  have fl: "\<lfloor>\<bar>x\<bar>\<rfloor> = \<bar>k\<bar>"
    by (simp only: ax floor_of_int)
  have e: "ilog2 \<bar>x\<bar> = bitlen \<bar>k\<bar> - 1"
    using one by (simp only: ilog2_def fl if_True)
  define q where "q = max (ilog2 \<bar>x\<bar> - 52) (- 1074)"
  have q0: "q \<le> 0" "- 1074 \<le> q"
    using bitlen_le_53[OF pos assms] by (simp_all add: q_def e)
  define m where "m = nat (- q)"
  have p: "pow2 q = 1 / 2 ^ m"
    using q0 by (cases "q = 0") (simp_all add: pow2_def m_def)
  have "\<bar>x\<bar> / pow2 q = of_int (\<bar>k\<bar> * 2 ^ m)"
    by (simp add: p ax)
  then have n: "round_half_even (\<bar>x\<bar> / pow2 q) = \<bar>k\<bar> * 2 ^ m"
    by (simp only: round_half_even_of_int)
  have x0: "x \<noteq> 0" using False by (simp add: x_def)
  have "round_double x = sgn x * of_int (round_half_even (\<bar>x\<bar> / pow2 q)) * pow2 q"
    by (simp only: round_double_def x0 if_False Let_def q_def)
  also have "\<dots> = sgn x * of_int (\<bar>k\<bar> * 2 ^ m) * pow2 q"
    by (simp only: n)
  also have "\<dots> = sgn x * \<bar>x\<bar>"
    by (simp add: p ax)
  also have "\<dots> = x" by (simp add: sgn_mult_abs)
  finally show ?thesis by (simp add: x_def)
qed

lemma to_double_whole:
  assumes "of_int \<lfloor>x\<rfloor> = x" "\<bar>x\<bar> < 2 ^ 53"
  shows "to_double x = Num x"
proof -
  obtain k where k: "x = of_int k" using assms(1) by metis
  have kb: "\<bar>k\<bar> < 2 ^ 53"
  proof -
    have "(of_int \<bar>k\<bar> :: rat) < of_int (2 ^ 53)" using assms(2) by (simp add: k)
    then show ?thesis by (simp only: of_int_less_iff)
  qed
  have r: "round_double x = x" unfolding k by (rule round_double_of_int[OF kb])
  have "(2::rat) ^ 53 < 2 ^ 1024" by simp
  then have "\<bar>x\<bar> < pow2 1024" using assms(2) by (simp add: pow2_def)
  then show ?thesis
    by (auto simp: to_double_def r Let_def)
qed

lemma whole_Ints: "whole x = (x \<in> \<int> \<and> 0 \<le> x)"
  unfolding whole_def by (metis Ints_of_int of_int_floor)

lemma fadd_whole:
  assumes "x \<in> \<int>" "y \<in> \<int>" "\<bar>x + y\<bar> < 2 ^ 53"
  shows "fadd (Num x) (Num y) = Num (x + y)"
  using assms by (simp add: to_double_whole of_int_floor)

lemma fsub_whole:
  assumes "x \<in> \<int>" "y \<in> \<int>" "\<bar>x - y\<bar> < 2 ^ 53"
  shows "fsub (Num x) (Num y) = Num (x - y)"
  using assms by (simp add: fsub_def to_double_whole of_int_floor)

lemma sum_list_whole:
  "\<forall>x \<in> set xs. whole (f x) \<Longrightarrow> sum_list (map f xs) \<in> \<int> \<and> 0 \<le> sum_list (map f xs)"
  by (induction xs) (auto simp: whole_Ints)

lemma sum_list_filter_le:
  "\<forall>x \<in> set xs. whole (f x) \<Longrightarrow> sum_list (map f (filter P xs)) \<le> sum_list (map f xs)"
  by (induction xs) (auto simp: whole_Ints intro: add_increasing)

lemma js_sum_fold_exact:
  assumes "\<forall>x \<in> set xs. whole (f x)" "whole a" "a + sum_list (map f xs) < 2 ^ 53"
  shows "foldl (\<lambda>s x. fadd s (Num (f x))) (Num a) xs = Num (a + sum_list (map f xs))"
  using assms
proof (induction xs arbitrary: a)
  case Nil
  then show ?case by simp
next
  case (Cons x xs)
  have s: "0 \<le> sum_list (map f xs)" using sum_list_whole[of xs f] Cons.prems(1) by simp
  have wx: "whole (f x)" using Cons.prems(1) by simp
  have ax: "whole (a + f x)" using wx Cons.prems(2) by (simp add: whole_Ints)
  have b: "\<bar>a + f x\<bar> < 2 ^ 53"
    using s ax Cons.prems(3) by (simp add: whole_Ints)
  have step: "fadd (Num a) (Num (f x)) = Num (a + f x)"
    using wx Cons.prems(2) b by (intro fadd_whole) (simp_all add: whole_Ints)
  have "foldl (\<lambda>s x. fadd s (Num (f x))) (Num (a + f x)) xs = Num (a + f x + sum_list (map f xs))"
    using Cons.prems ax by (intro Cons.IH) (simp_all add: add.assoc)
  then show ?case by (simp add: step add.assoc del: fadd.simps)
qed

lemma js_signed_fold_exact:
  assumes "\<forall>p \<in> set ps. whole (f p)" "a \<in> \<int>" "\<bar>a\<bar> + sum_list (map f ps) < 2 ^ 53"
  shows "foldl (\<lambda>acc p. if r p then fsub acc (Num (f p)) else fadd acc (Num (f p))) (Num a) ps
          = Num (a + sum_list (map f (filter (\<lambda>p. \<not> r p) ps)) - sum_list (map f (filter r ps)))"
  using assms
proof (induction ps arbitrary: a)
  case Nil
  then show ?case by simp
next
  case (Cons p ps)
  have s: "0 \<le> sum_list (map f ps)" using sum_list_whole[of ps f] Cons.prems(1) by simp
  have wp: "f p \<in> \<int>" "0 \<le> f p" using Cons.prems(1) by (simp_all add: whole_Ints)
  show ?case
  proof (cases "r p")
    case True
    have b: "\<bar>a - f p\<bar> < 2 ^ 53" using s wp Cons.prems(3) by simp
    have step: "fsub (Num a) (Num (f p)) = Num (a - f p)"
      using wp Cons.prems(2) b by (intro fsub_whole)
    have "\<bar>a - f p\<bar> + sum_list (map f ps) < 2 ^ 53" using wp Cons.prems(3) by simp
    with Cons.prems wp have "foldl (\<lambda>acc p. if r p then fsub acc (Num (f p)) else fadd acc (Num (f p)))
            (Num (a - f p)) ps
          = Num (a - f p + sum_list (map f (filter (\<lambda>p. \<not> r p) ps)) - sum_list (map f (filter r ps)))"
      by (intro Cons.IH) simp_all
    then show ?thesis using True by (simp add: step del: fadd.simps)
  next
    case False
    have b: "\<bar>a + f p\<bar> < 2 ^ 53" using s wp Cons.prems(3) by simp
    have step: "fadd (Num a) (Num (f p)) = Num (a + f p)"
      using wp Cons.prems(2) b by (intro fadd_whole)
    have "\<bar>a + f p\<bar> + sum_list (map f ps) < 2 ^ 53" using wp Cons.prems(3) by simp
    with Cons.prems wp have "foldl (\<lambda>acc p. if r p then fsub acc (Num (f p)) else fadd acc (Num (f p)))
            (Num (a + f p)) ps
          = Num (a + f p + sum_list (map f (filter (\<lambda>p. \<not> r p) ps)) - sum_list (map f (filter r ps)))"
      by (intro Cons.IH) simp_all
    then show ?thesis using False by (simp add: step add.assoc del: fadd.simps)
  qed
qed

text \<open>What the client view and the dashboard compute, and that it is exact on whole amounts.\<close>

lemma netPaid_js:
  "netPaid (getClientFinancials d cid) =
     fsub (js_sum (map p_amount (filter (\<lambda>p. p_clientId p = cid \<and>
                                   (p_type p = Some RECEIVED \<or> p_type p = None)) (payments d))))
          (js_sum (map p_amount (filter (\<lambda>p. p_clientId p = cid \<and> p_type p = Some REFUND)
                                   (payments d))))"
  by (simp add: getClientFinancials_def js_sum_def Let_def foldl_map not_refund_iff conj_commute
        del: fadd.simps)

lemma due_js:
  "due (getClientFinancials d cid) =
     fsub (billed (getClientFinancials d cid)) (netPaid (getClientFinancials d cid))"
  by (simp add: getClientFinancials_def Let_def)

lemma billed_js:
  "distinct (map c_id (clients d)) \<Longrightarrow> c \<in> set (clients d) \<Longrightarrow>
     billed (getClientFinancials d (c_id c)) = Num (num_or0 (c_totalBilled c))"
  by (simp add: getClientFinancials_def Let_def find_distinct)

lemma totalDue_js:
  "totalDue (dashboardStats d) =
     foldl (\<lambda>sum c.
              let due = fsub (Num (num_or0 (c_totalBilled c)))
                             (js_signed_total (filter (\<lambda>p. p_clientId p = c_id c) (payments d)))
              in fadd sum (if gt0 due then due else Num 0))
           (Num 0) (clients d)"
  by (simp add: dashboardStats_def js_signed_total_def Let_def del: fadd.simps)

lemma sum_list_filter_split:
  "sum_list (map f (filter (\<lambda>p. Q p \<and> \<not> r p) xs)) + sum_list (map f (filter (\<lambda>p. Q p \<and> r p) xs))
     = sum_list (map f (filter Q xs))" for f :: "'a \<Rightarrow> rat"
  by (induction xs) auto

lemma whole_amounts_exact:
  assumes W: "whole_amounts d"
  shows "netPaid (getClientFinancials d cid) = Num (spec_netPaid d cid)"
    and "due (getClientFinancials d cid) =
           Num (num_or0 (case find (\<lambda>c. c_id c = cid) (clients d) of
                           None \<Rightarrow> None | Some c \<Rightarrow> c_totalBilled c) - spec_netPaid d cid)"
    and "totalDue (dashboardStats d) = Num (spec_totalOutstanding d)"
proof -
  define P where "P = sum_list (map p_amount (payments d))"
  define B where "B = sum_list (map (\<lambda>c. num_or0 (c_totalBilled c)) (clients d))"
  define N where "N = length (clients d)"
  have wp: "\<forall>p \<in> set (payments d). whole (p_amount p)"
    and wc: "\<forall>c \<in> set (clients d). whole (num_or0 (c_totalBilled c))"
    and wb: "B + of_nat (Suc N) * P < 2 ^ 53"
    using W by (simp_all add: whole_amounts_def P_def B_def N_def)
  have P0: "P \<in> \<int>" "0 \<le> P" using sum_list_whole[OF wp] by (simp_all add: P_def)
  have B0: "B \<in> \<int>" "0 \<le> B" using sum_list_whole[OF wc] by (simp_all add: B_def)
  have NP: "0 \<le> of_nat N * P" using P0 by simp
  have BP: "B + P < 2 ^ 53" using wb NP by (simp add: algebra_simps)
  have Pb: "P < 2 ^ 53" using BP B0 by simp
  have BNP: "B + of_nat N * P < 2 ^ 53" using wb P0 by (simp add: algebra_simps)
  define R where "R k = sum_list (map p_amount (filter (\<lambda>p. p_clientId p = k \<and>
              (p_type p = Some RECEIVED \<or> p_type p = None)) (payments d)))" for k
  define F where "F k = sum_list (map p_amount (filter (\<lambda>p. p_clientId p = k \<and>
              p_type p = Some REFUND) (payments d)))" for k
  have sp: "spec_netPaid d k = R k - F k" for k
    by (simp add: spec_netPaid_def R_def F_def)
  have wf: "\<forall>p \<in> set (filter Q (payments d)). whole (p_amount p)" for Q
    using wp by simp
  have R0: "R k \<in> \<int>" "0 \<le> R k" "R k \<le> P" for k
    using sum_list_whole[OF wf] sum_list_filter_le[OF wp] by (simp_all add: R_def P_def)
  have F0: "F k \<in> \<int>" "0 \<le> F k" "F k \<le> P" for k
    using sum_list_whole[OF wf] sum_list_filter_le[OF wp] by (simp_all add: F_def P_def)
  have RF: "R k + F k \<le> P" for k
  proof -
    have "R k + F k = sum_list (map p_amount (filter (\<lambda>p. p_clientId p = k) (payments d)))"
      unfolding R_def F_def not_refund_iff[symmetric]
      by (rule sum_list_filter_split[of p_amount _ "\<lambda>p. p_type p = Some REFUND"])
    then show ?thesis using sum_list_filter_le[OF wp] by (simp add: P_def)
  qed
  have jsR: "js_sum (map p_amount (filter (\<lambda>p. p_clientId p = k \<and>
              (p_type p = Some RECEIVED \<or> p_type p = None)) (payments d))) = Num (R k)" for k
    unfolding js_sum_def R_def foldl_map
    using js_sum_fold_exact[of "filter (\<lambda>p. p_clientId p = k \<and>
              (p_type p = Some RECEIVED \<or> p_type p = None)) (payments d)" p_amount 0]
      wf R0(3)[of k] Pb
    by (simp add: whole_Ints R_def)
  have jsF: "js_sum (map p_amount (filter (\<lambda>p. p_clientId p = k \<and>
              p_type p = Some REFUND) (payments d))) = Num (F k)" for k
    unfolding js_sum_def F_def foldl_map
    using js_sum_fold_exact[of "filter (\<lambda>p. p_clientId p = k \<and>
              p_type p = Some REFUND) (payments d)" p_amount 0]
      wf F0(3)[of k] Pb
    by (simp add: whole_Ints F_def)
  have np: "netPaid (getClientFinancials d k) = Num (R k - F k)" for k
  proof -
    have "\<bar>R k - F k\<bar> < 2 ^ 53" using R0[of k] F0[of k] Pb by linarith
    then show ?thesis
      unfolding netPaid_js jsR jsF using R0(1) F0(1) by (intro fsub_whole)
  qed
  show "netPaid (getClientFinancials d cid) = Num (spec_netPaid d cid)"
    by (simp add: np sp)
  define b where "b = num_or0 (case find (\<lambda>c. c_id c = cid) (clients d) of
                           None \<Rightarrow> None | Some c \<Rightarrow> c_totalBilled c)"
  have bB: "b \<in> \<int> \<and> 0 \<le> b \<and> b \<le> B"
  proof (cases "find (\<lambda>c. c_id c = cid) (clients d)")
    case None
    then show ?thesis using B0 by (simp add: b_def num_or0_def)
  next
    case (Some c)
    then have c: "c \<in> set (clients d)" by (auto simp: find_Some_iff)
    have "num_or0 (c_totalBilled c) \<le> B"
      unfolding B_def using c wc
      by (intro member_le_sum_list) (auto simp: whole_Ints)
    then show ?thesis using Some wc c by (simp add: b_def whole_Ints)
  qed
  have bl: "billed (getClientFinancials d cid) = Num b"
    by (simp add: getClientFinancials_def Let_def b_def)
  have "\<bar>b - (R cid - F cid)\<bar> < 2 ^ 53"
    using bB R0[of cid] F0[of cid] BP Pb by linarith
  then have "fsub (Num b) (Num (R cid - F cid)) = Num (b - (R cid - F cid))"
    using bB R0(1) F0(1) by (intro fsub_whole) simp_all
  then show "due (getClientFinancials d cid) =
           Num (num_or0 (case find (\<lambda>c. c_id c = cid) (clients d) of
                           None \<Rightarrow> None | Some c \<Rightarrow> c_totalBilled c) - spec_netPaid d cid)"
    unfolding due_js bl np sp b_def[symmetric] .
  have st: "js_signed_total (filter (\<lambda>p. p_clientId p = k) (payments d)) = Num (R k - F k)" for k
  proof -
    have "\<bar>0::rat\<bar> + sum_list (map p_amount (filter (\<lambda>p. p_clientId p = k) (payments d))) < 2 ^ 53"
      using sum_list_filter_le[OF wp, of "\<lambda>p. p_clientId p = k"] Pb by (simp add: P_def)
    from js_signed_fold_exact[OF wf _ this, of "\<lambda>p. p_type p = Some REFUND"]
    show ?thesis
      by (simp add: js_signed_total_def R_def F_def not_refund_iff conj_commute)
  qed
  define g where "g c = max 0 (num_or0 (c_totalBilled c) - (R (c_id c) - F (c_id c)))"
    for c :: Client
  have gstep: "(let due = fsub (Num (num_or0 (c_totalBilled c)))
                             (js_signed_total (filter (\<lambda>p. p_clientId p = c_id c) (payments d)))
              in fadd s (if gt0 due then due else Num 0)) = fadd s (Num (g c))"
    if "c \<in> set (clients d)" for c s
  proof -
    have cB: "num_or0 (c_totalBilled c) \<in> \<int>" "0 \<le> num_or0 (c_totalBilled c)"
      "num_or0 (c_totalBilled c) \<le> B"
      using that wc member_le_sum_list[of "num_or0 (c_totalBilled c)"
          "map (\<lambda>c. num_or0 (c_totalBilled c)) (clients d)"]
      by (auto simp: whole_Ints B_def)
    have "\<bar>num_or0 (c_totalBilled c) - (R (c_id c) - F (c_id c))\<bar> < 2 ^ 53"
      using cB R0[of "c_id c"] F0[of "c_id c"] BP Pb by linarith
    then have "fsub (Num (num_or0 (c_totalBilled c))) (Num (R (c_id c) - F (c_id c)))
        = Num (num_or0 (c_totalBilled c) - (R (c_id c) - F (c_id c)))"
      using cB R0(1) F0(1) by (intro fsub_whole) simp_all
    then show ?thesis
      by (simp add: st g_def max_def Let_def del: fadd.simps)
  qed
  have gw: "\<forall>c \<in> set (clients d). whole (g c)"
    using wc R0(1) F0(1) by (auto simp: g_def whole_Ints max_def)
  have gle: "g c \<le> num_or0 (c_totalBilled c) + P" if "c \<in> set (clients d)" for c
    using wc that R0[of "c_id c"] F0[of "c_id c"] P0 by (auto simp: g_def max_def whole_Ints)
  have "sum_list (map g (clients d)) \<le> sum_list (map (\<lambda>c. num_or0 (c_totalBilled c) + P) (clients d))"
    by (intro sum_list_mono gle)
  also have "\<dots> = B + of_nat N * P"
    by (simp add: B_def N_def sum_list_addf sum_list_triv)
  finally have gb: "0 + sum_list (map g (clients d)) < 2 ^ 53" using BNP by simp
  have "totalDue (dashboardStats d) = foldl (\<lambda>s c. fadd s (Num (g c))) (Num 0) (clients d)"
    unfolding totalDue_js by (rule foldl_cong) (simp_all only: gstep)
  also have "\<dots> = Num (0 + sum_list (map g (clients d)))"
    by (rule js_sum_fold_exact[OF gw _ gb]) (simp add: whole_def)
  also have "\<dots> = Num (spec_totalOutstanding d)"
    by (simp add: spec_totalOutstanding_def sp) (simp add: g_def[abs_def])
  finally show "totalDue (dashboardStats d) = Num (spec_totalOutstanding d)" .
qed

lemma to_double_round:
  assumes "round_double x = r" "\<bar>r\<bar> < 2 ^ 53"
  shows "to_double x = Num r"
proof -
  have "(2::rat) ^ 53 < 2 ^ 1024" by simp
  with assms(2) have "\<bar>r\<bar> < pow2 1024" by (simp add: pow2_def)
  then show ?thesis by (auto simp: to_double_def assms(1) Let_def)
qed

lemma fadd_round:
  "round_double (x + y) = r \<Longrightarrow> \<bar>r\<bar> < 2 ^ 53 \<Longrightarrow> fadd (Num x) (Num y) = Num r"
  by (simp add: to_double_round)

lemma fsub_round:
  "round_double (x - y) = r \<Longrightarrow> \<bar>r\<bar> < 2 ^ 53 \<Longrightarrow> fsub (Num x) (Num y) = Num r"
  by (simp add: fsub_def to_double_round)

lemma whole_example: "whole_amounts example_ledger"
  by (simp add: whole_amounts_def whole_def example_defs num_or0_def)

text \<open>
  Rounding shows in the client view too: a client billed 0.8 who paid 0.7 and 0.1 has net
  paid 0.7999999999999999 and a due of \<open>2^-53\<close>, which the dashboard counts as outstanding.
\<close>

lemma paid_up_client_still_due:
  "netPaid (getClientFinancials paid_up_ledger ''X'') = Num (round_double (4 / 5) - 1 / 2 ^ 53)
   \<and> due (getClientFinancials paid_up_ledger ''X'') = Num (1 / 2 ^ 53)
   \<and> totalDue (dashboardStats paid_up_ledger) = Num (1 / 2 ^ 53)"
proof -
  define a b c n u :: rat
    where "a = round_double (7 / 10)" and "b = round_double (1 / 10)"
      and "c = round_double (4 / 5)" and "n = 7205759403792793 / 2 ^ 53"
      and "u = 1 / 2 ^ 53"
  have a: "a = 3152519739159347 / 2 ^ 52" unfolding a_def by code_simp
  have b: "b = 3602879701896397 / 2 ^ 55" unfolding b_def by code_simp
  have c: "c = 3602879701896397 / 2 ^ 52" unfolding c_def by code_simp
  have l: "payments paid_up_ledger =
      [\<lparr>p_id = ''y1'', p_clientId = ''X'', p_amount = a, p_date = ''2024-02-01'',
         p_description = None, p_method = Some ''Cash'', p_details = None, p_type = Some RECEIVED\<rparr>,
       \<lparr>p_id = ''y2'', p_clientId = ''X'', p_amount = b, p_date = ''2024-02-01'',
         p_description = None, p_method = Some ''Cash'', p_details = None, p_type = Some RECEIVED\<rparr>]"
    and k: "map c_id (clients paid_up_ledger) = [''X'']"
      "map c_totalBilled (clients paid_up_ledger) = [Some c]"
      "find (\<lambda>c. c_id c = ''X'') (clients paid_up_ledger) = Some (clientX\<lparr>c_totalBilled := Some c\<rparr>)"
    by (simp_all add: paid_up_ledger_def rounding_defs a_def b_def c_def)
  have s1: "fadd (Num 0) (Num a) = Num a"
    unfolding a by (rule fadd_round, code_simp, simp)
  have s2: "fadd (Num a) (Num b) = Num n"
    unfolding a b n_def by (rule fadd_round, code_simp, simp)
  have s3: "fsub (Num n) (Num 0) = Num n"
    unfolding n_def by (rule fsub_round, code_simp, simp)
  have s4: "fsub (Num c) (Num n) = Num u"
    unfolding c n_def u_def by (rule fsub_round, code_simp, simp)
  have s5: "fadd (Num 0) (Num u) = Num u"
    unfolding u_def by (rule fadd_round, code_simp, simp)
  have g: "0 < u" by (simp add: u_def)
  have cn: "c - u = n" unfolding c n_def u_def by simp
  have np: "netPaid (getClientFinancials paid_up_ledger ''X'') = Num n"
    by (simp add: getClientFinancials_def Let_def l s1 s2 s3 del: fadd.simps)
  have bl: "billed (getClientFinancials paid_up_ledger ''X'') = Num c"
    by (simp add: getClientFinancials_def Let_def k num_or0_def)
  have d: "due (getClientFinancials paid_up_ledger ''X'') = Num u"
    unfolding due_js np bl by (rule s4)
  have cl: "clients paid_up_ledger = [clientX\<lparr>c_totalBilled := Some c\<rparr>]"
    by (simp add: paid_up_ledger_def c_def)
  have "totalDue (dashboardStats paid_up_ledger) = Num u"
    by (simp add: totalDue_js js_signed_total_def Let_def l cl clientX_def num_or0_def s1 s2 s4 s5 g
          del: fadd.simps)
  with np d cn show ?thesis by (simp add: c_def u_def)
qed

section \<open>Properties of the aggregation engine\<close>

text \<open>
  C7. The normalisation applied to every client read by \<open>fetchData\<close> (\<open>isActive\<close> becomes
  \<open>true\<close> unless it is \<open>false\<close>) is idempotent: applied twice it gives the same record as
  applied once.
\<close>

theorem normalize_idempotent: "normalize_client (normalize_client c) = normalize_client c"
  by (simp add: normalize_client_def)

text \<open>
  C2, as the code has it. Every \<open>+\<close> and \<open>-\<close> is rounded to a double. For every client id, the
  client view's net paid is the sum of that client's RECEIVED amounts (a payment without a
  type counts as RECEIVED) minus the sum of its REFUND amounts, each sum added from 0 in list
  order, and its due is billed minus net paid, where billed is the client's \<open>totalBilled\<close> (0
  when absent) once ids are unique. The dashboard's total outstanding adds up, client by
  client, the positive part of \<open>totalBilled\<close> minus paid, a client whose figure is not positive
  adding 0; its paid is the running total of the client's payments in list order, a REFUND
  subtracted and any other payment added. On a ledger of whole amounts (\<open>whole_amounts\<close>)
  nothing rounds, and net paid, due and total outstanding are the exact figures of the spec. The
  client of the example ledger with \<open>totalBilled\<close> 1000, a RECEIVED payment of 400 and a REFUND
  of 100 has net paid 300 and due 700.
\<close>

theorem client_financials_in_doubles:
  "netPaid (getClientFinancials d cid) =
       fsub (js_sum (map p_amount (filter (\<lambda>p. p_clientId p = cid \<and>
                                     (p_type p = Some RECEIVED \<or> p_type p = None)) (payments d))))
            (js_sum (map p_amount (filter (\<lambda>p. p_clientId p = cid \<and> p_type p = Some REFUND)
                                     (payments d))))
   \<and> due (getClientFinancials d cid) =
       fsub (billed (getClientFinancials d cid)) (netPaid (getClientFinancials d cid))
   \<and> (distinct (map c_id (clients d)) \<longrightarrow>
        (\<forall>c \<in> set (clients d).
           billed (getClientFinancials d (c_id c)) = Num (num_or0 (c_totalBilled c))))
   \<and> totalDue (dashboardStats d) =
       foldl (\<lambda>sum c.
                let due = fsub (Num (num_or0 (c_totalBilled c)))
                               (js_signed_total (filter (\<lambda>p. p_clientId p = c_id c) (payments d)))
                in fadd sum (if gt0 due then due else Num 0))
             (Num 0) (clients d)
   \<and> (whole_amounts d \<longrightarrow>
         netPaid (getClientFinancials d cid) = Num (spec_netPaid d cid)
       \<and> due (getClientFinancials d cid) =
           Num (num_or0 (case find (\<lambda>c. c_id c = cid) (clients d) of
                           None \<Rightarrow> None | Some c \<Rightarrow> c_totalBilled c) - spec_netPaid d cid)
       \<and> totalDue (dashboardStats d) = Num (spec_totalOutstanding d))
   \<and> netPaid (getClientFinancials example_ledger ''C'') = Num 300
   \<and> due (getClientFinancials example_ledger ''C'') = Num 700"
proof -
  have n: "netPaid (getClientFinancials example_ledger ''C'') = Num 300"
    unfolding whole_amounts_exact(1)[OF whole_example]
    by (simp add: spec_netPaid_def example_defs)
  have e: "due (getClientFinancials example_ledger ''C'') = Num 700"
    unfolding whole_amounts_exact(2)[OF whole_example]
    by (simp add: spec_netPaid_def example_defs num_or0_def)
  show ?thesis
    using netPaid_js[of d cid] due_js[of d cid] billed_js[of d] totalDue_js[of d]
      whole_amounts_exact(1,2)[of d cid] whole_amounts_exact(3)[of d] n e
    by blast
qed

theorem client_financials_in_doubles_witness:
  "distinct (map c_id (clients example_ledger))
   \<and> whole_amounts example_ledger
   \<and> billed (getClientFinancials example_ledger ''A'') = Num 50
   \<and> netPaid (getClientFinancials example_ledger ''A'') = Num 80
   \<and> due (getClientFinancials example_ledger ''A'') = Num (- 30)
   \<and> totalDue (dashboardStats example_ledger) = Num 700"
proof -
  have dist: "distinct (map c_id (clients example_ledger))"
    and mem: "clientA \<in> set (clients example_ledger)"
    and w: "whole_amounts example_ledger"
    by (simp_all add: whole_amounts_def whole_def example_defs num_or0_def)
  note t = client_financials_in_doubles [of example_ledger "''A''"]
  from t dist mem
  have "billed (getClientFinancials example_ledger (c_id clientA)) = Num (num_or0 (c_totalBilled clientA))"
    by blast
  then have b: "billed (getClientFinancials example_ledger ''A'') = Num 50"
    by (simp add: clientA_def num_or0_def)
  from t w
  have "netPaid (getClientFinancials example_ledger ''A'') = Num (spec_netPaid example_ledger ''A'')"
    and "due (getClientFinancials example_ledger ''A'') =
           Num (num_or0 (case find (\<lambda>c. c_id c = ''A'') (clients example_ledger) of
                           None \<Rightarrow> None | Some c \<Rightarrow> c_totalBilled c) - spec_netPaid example_ledger ''A'')"
    and "totalDue (dashboardStats example_ledger) = Num (spec_totalOutstanding example_ledger)"
    by blast+
  then show ?thesis
    using dist w b
    by (simp add: spec_netPaid_def spec_totalOutstanding_def example_defs num_or0_def)
qed

text \<open>
  C2, as stated, fails: the dashboard's paid and the client view's net paid round differently.
  For the client billed 0.2 with a RECEIVED payment of 0.1, a REFUND of 0.2 and a RECEIVED
  payment of 0.3, the client view has net paid 0.2 and due 0, while the dashboard's total
  outstanding is \<open>2^-55\<close>: it is not the sum of the positive per-client dues.
\<close>

theorem total_outstanding_counterexample:
  "netPaid (getClientFinancials rounding_ledger ''X'') = Num (round_double (1 / 5))
   \<and> billed (getClientFinancials rounding_ledger ''X'') = Num (round_double (1 / 5))
   \<and> due (getClientFinancials rounding_ledger ''X'') = Num 0
   \<and> totalDue (dashboardStats rounding_ledger) = Num (1 / 2 ^ 55)"
proof -
  define a b c s t u :: rat
    where "a = round_double (1 / 10)" and "b = round_double (1 / 5)"
      and "c = round_double (3 / 10)" and "s = 3602879701896397 / 2 ^ 53"
      and "t = 7205759403792793 / 2 ^ 55" and "u = 1 / 2 ^ 55"
  have a: "a = 3602879701896397 / 2 ^ 55" unfolding a_def by code_simp
  have b: "b = 3602879701896397 / 2 ^ 54" unfolding b_def by code_simp
  have c: "c = 5404319552844595 / 2 ^ 54" unfolding c_def by code_simp
  have l: "payments rounding_ledger =
      [\<lparr>p_id = ''x1'', p_clientId = ''X'', p_amount = a, p_date = ''2024-02-01'',
         p_description = None, p_method = Some ''Cash'', p_details = None, p_type = Some RECEIVED\<rparr>,
       \<lparr>p_id = ''x2'', p_clientId = ''X'', p_amount = b, p_date = ''2024-02-01'',
         p_description = None, p_method = Some ''Cash'', p_details = None, p_type = Some REFUND\<rparr>,
       \<lparr>p_id = ''x3'', p_clientId = ''X'', p_amount = c, p_date = ''2024-02-01'',
         p_description = None, p_method = Some ''Cash'', p_details = None, p_type = Some RECEIVED\<rparr>]"
    and k: "clients rounding_ledger = [clientX]" "c_id clientX = ''X''"
      "c_totalBilled clientX = Some b"
    by (simp_all add: rounding_defs a_def b_def c_def)
  have s1: "fadd (Num 0) (Num a) = Num a"
    unfolding a by (rule fadd_round, code_simp, simp)
  have s2: "fadd (Num a) (Num c) = Num s"
    unfolding a c s_def by (rule fadd_round, code_simp, simp)
  have s3: "fadd (Num 0) (Num b) = Num b"
    unfolding b by (rule fadd_round, code_simp, simp)
  have s4: "fsub (Num s) (Num b) = Num b"
    unfolding b s_def by (rule fsub_round, code_simp, simp)
  have s5: "fsub (Num b) (Num b) = Num 0"
    unfolding b by (rule fsub_round, code_simp, simp)
  have s6: "fsub (Num a) (Num b) = Num (- a)"
    unfolding a b by (rule fsub_round, code_simp, simp)
  have s7: "fadd (Num (- a)) (Num c) = Num t"
    unfolding a c t_def by (rule fadd_round, code_simp, simp)
  have s8: "fsub (Num b) (Num t) = Num u"
    unfolding b t_def u_def by (rule fsub_round, code_simp, simp)
  have s9: "fadd (Num 0) (Num u) = Num u"
    unfolding u_def by (rule fadd_round, code_simp, simp)
  have g: "0 < u" by (simp add: u_def)
  have n: "netPaid (getClientFinancials rounding_ledger ''X'') = Num b"
    by (simp add: getClientFinancials_def Let_def l s1 s2 s3 s4 del: fadd.simps)
  have bl: "billed (getClientFinancials rounding_ledger ''X'') = Num b"
    by (simp add: getClientFinancials_def Let_def k num_or0_def)
  have d: "due (getClientFinancials rounding_ledger ''X'') = Num 0"
    unfolding due_js n bl by (rule s5)
  have "totalDue (dashboardStats rounding_ledger) = Num u"
    by (simp add: totalDue_js js_signed_total_def Let_def l k num_or0_def s1 s6 s7 s8 s9 g
          del: fadd.simps)
  with n bl d show ?thesis by (simp add: b_def u_def)
qed

text \<open>
  C3. The payments of a report are exactly the payments of the ledger, with multiplicity,
  whose date is in [\<open>startDate\<close>, \<open>endDate\<close>], whose client is the client filter unless that is
  \<open>ALL\<close>, and whose method is the method filter unless that is \<open>ALL\<close>; the method of a payment
  that has none (absent, or the empty string) is \<open>Cash\<close>. Its expenses are the expenses of
  the ledger in that date range when both filters are \<open>ALL\<close>, and none otherwise.
\<close>

theorem report_selection:
  "mset (r_payments (reportData lc d startDate endDate clientFilter methodFilter)) =
     filter_mset (\<lambda>p. startDate \<le> p_date p \<and> p_date p \<le> endDate
                      \<and> (clientFilter = ''ALL'' \<or> p_clientId p = clientFilter)
                      \<and> (methodFilter = ''ALL'' \<or> str_or (p_method p) ''Cash'' = methodFilter))
                 (mset (payments d))
   \<and> mset (r_expenses (reportData lc d startDate endDate clientFilter methodFilter)) =
     (if clientFilter = ''ALL'' \<and> methodFilter = ''ALL''
      then filter_mset (\<lambda>e. startDate \<le> e_date e \<and> e_date e \<le> endDate) (mset (expenses d))
      else {#})"
  by (simp add: reportData_def Let_def mset_js_sort)

theorem report_selection_witness:
  "r_payments (reportData ordinalCompare example_ledger ''2024-01-01'' ''2024-01-31'' ''C'' ''ALL'')
     = [payment2, payment1]
   \<and> r_expenses (reportData ordinalCompare example_ledger ''2024-01-01'' ''2024-01-31'' ''C'' ''ALL'')
     = []
   \<and> r_expenses (reportData ordinalCompare example_ledger ''2024-01-01'' ''2024-01-31'' ''ALL'' ''ALL'')
     = [expense1]
   \<and> r_payments (reportData ordinalCompare example_ledger ''2024-01-01'' ''2024-01-31'' ''ALL'' ''Cash'')
     = [payment1]"
  using report_selection [of ordinalCompare example_ledger "''2024-01-01''" "''2024-01-31''" "''C''" "''ALL''"]
  by (simp add: reportData_def Let_def example_defs str_or_def ordinalCompare_def)



section \<open>The store: allocation, local reads, well-formedness\<close>

lemmas alloc_defs = new_obj_def new_clients_def new_payments_def new_expenses_def new_appdata_def

lemmas handler_defs = rollbackOnError_def getLocalData_def saveLocalData_def send_def
  well_formed_def ledger_def contents_def DEFAULT_DATA_def alloc_defs Let_def getSupabaseClient_def

lemmas world_defs = connected_world_def initial_world_def table_store_def deny_these_def allow_all_def

lemmas eval_defs = loadData_def fetchData_def fetchCatch_def localNormalized_def getLocalData_def
  saveLocalData_def getSupabaseClient_def truthy_def send_def DEFAULT_DATA_def contents_def
  ledger_def rows_def rollbackOnError_def alloc_defs Let_def

lemma localNormalized_fails_iff:
  "(\<exists>e. fst (localNormalized w) = Inl e) = (storage w = Some Garbage)"
  by (simp add: localNormalized_def getLocalData_def alloc_defs Let_def split: option.splits stored.splits prod.splits)

lemma localNormalized_frame:
  "hasConnectionError (snd (localNormalized w)) = hasConnectionError w"
  "alerts (snd (localNormalized w)) = alerts w"
  "requests (snd (localNormalized w)) = requests w"
  "remote (snd (localNormalized w)) = remote w"
  "storage (snd (localNormalized w)) = storage w"
  "data (snd (localNormalized w)) = data w"
  by (simp_all add: localNormalized_def getLocalData_def alloc_defs Let_def split: option.splits stored.splits prod.splits)

lemma localNormalized_Json:
  "storage w = Some (Json v) \<Longrightarrow> fst (localNormalized w) = Inr r \<Longrightarrow>
     contents (snd (localNormalized w)) r = v\<lparr>clients := map normalize_client (clients v)\<rparr>"
  by (auto simp add: localNormalized_def getLocalData_def alloc_defs contents_def Let_def split: option.splits stored.splits prod.splits)

lemma localNormalized_None:
  "storage w = None \<Longrightarrow> well_formed w \<Longrightarrow> 
     fst (localNormalized w) = Inr DEFAULT_DATA \<and>
     contents (snd (localNormalized w)) DEFAULT_DATA =
       (contents w DEFAULT_DATA)\<lparr>clients := map normalize_client (clients (contents w DEFAULT_DATA))\<rparr>"
  by (auto simp add: localNormalized_def getLocalData_def alloc_defs contents_def well_formed_def Let_def split: option.splits stored.splits prod.splits)

lemma well_formed_initial: "well_formed (initial_world st q url key s)"
  by (simp add: well_formed_def initial_world_def DEFAULT_DATA_def)

lemma well_formed_localNormalized:
  "well_formed w \<Longrightarrow> localNormalized w = (Inr r, w1) \<Longrightarrow> well_formed (w1\<lparr>data := r\<rparr>)"
  by (auto simp add: localNormalized_def getLocalData_def alloc_defs well_formed_def
        DEFAULT_DATA_def Let_def split: option.splits stored.splits prod.splits)

lemma well_formed_localNormalized_err:
  "well_formed w \<Longrightarrow> localNormalized w = (Inl e, w1) \<Longrightarrow> well_formed w1"
  by (auto simp add: localNormalized_def getLocalData_def alloc_defs well_formed_def
        DEFAULT_DATA_def Let_def split: option.splits stored.splits prod.splits)

lemma well_formed_frame:
  "well_formed (w\<lparr>hasConnectionError := b\<rparr>) = well_formed w"
  "well_formed (w\<lparr>alerts := a\<rparr>) = well_formed w"
  "well_formed (w\<lparr>requests := rq\<rparr>) = well_formed w"
  by (simp_all add: well_formed_def)

lemma well_formed_fetchCatch:
  "well_formed w \<Longrightarrow> fetchCatch error w = (Inr r, w1) \<Longrightarrow> well_formed (w1\<lparr>data := r\<rparr>)"
  "well_formed w \<Longrightarrow> fetchCatch error w = (Inl e, w1) \<Longrightarrow> well_formed w1"
  unfolding fetchCatch_def
  by (erule well_formed_localNormalized[rotated] well_formed_localNormalized_err[rotated],
      simp add: well_formed_frame)+

lemma well_formed_new_appdata:
  "well_formed w \<Longrightarrow> new_appdata v w = (r, w1) \<Longrightarrow> well_formed (w1\<lparr>data := r\<rparr>)"
  by (auto simp: alloc_defs well_formed_def DEFAULT_DATA_def split: prod.splits)

lemma well_formed_fetchData:
  assumes "well_formed w"
  shows "fetchData sb w = (Inr r, w1) \<Longrightarrow> well_formed (w1\<lparr>data := r\<rparr>)"
    and "fetchData sb w = (Inl e, w1) \<Longrightarrow> well_formed w1"
proof -
  let ?w0 = "w\<lparr>requests := requests w @ [SelectClients, SelectPayments, SelectExpenses]\<rparr>"
  have w0: "well_formed ?w0" using assms by (simp add: well_formed_frame)
  show "fetchData sb w = (Inr r, w1) \<Longrightarrow> well_formed (w1\<lparr>data := r\<rparr>)"
    using assms w0
    by (auto simp: fetchData_def Let_def split: if_splits option.splits prod.splits
          dest: well_formed_fetchCatch(1)[rotated] well_formed_localNormalized[rotated]
                well_formed_new_appdata[rotated])
  show "fetchData sb w = (Inl e, w1) \<Longrightarrow> well_formed w1"
    using assms w0
    by (auto simp: fetchData_def Let_def split: if_splits option.splits prod.splits
          dest: well_formed_fetchCatch(2)[rotated] well_formed_localNormalized_err[rotated])
qed

lemma well_formed_loadData: "well_formed w \<Longrightarrow> well_formed (loadData sb w)"
proof -
  assume "well_formed w"
  then have w: "well_formed (w\<lparr>hasConnectionError := False\<rparr>)"
    by (simp add: well_formed_frame)
  obtain res w1 where f: "fetchData sb (w\<lparr>hasConnectionError := False\<rparr>) = (res, w1)"
    by (cases "fetchData sb (w\<lparr>hasConnectionError := False\<rparr>)")
  show ?thesis
  proof (cases res)
    case (Inl e)
    with well_formed_fetchData(2)[OF w] f show ?thesis
      by (simp add: loadData_def well_formed_frame)
  next
    case (Inr r)
    with well_formed_fetchData(1)[OF w] f show ?thesis
      by (simp add: loadData_def)
  qed
qed

lemma well_formed_handlers:
  assumes "well_formed w"
  shows "well_formed (addClient sb c w)" 
    and "well_formed (updateClient sb c w)"
    and "well_formed (addPayment sb p w)"
    and "well_formed (updatePayment sb p w)"
    and "well_formed (deletePayment sb i w)"
    and "well_formed (addExpense sb e w)"
    and "well_formed (deleteExpense sb i w)"
  using assms
  by (auto simp: addClient_def dataService_addClient_def updateClient_def dataService_updateClient_def
        addPayment_def dataService_addPayment_def updatePayment_def dataService_updatePayment_def
        deletePayment_def dataService_deletePayment_def addExpense_def dataService_addExpense_def
        deleteExpense_def dataService_deleteExpense_def handler_defs
      split: prod.splits option.splits stored.splits)

lemma well_formed_importData: "well_formed w \<Longrightarrow> well_formed (importData sb v w)"
proof -
  assume w: "well_formed w"
  obtain res w1 where d: "dataService_importData sb v w = (res, w1)"
    by (cases "dataService_importData sb v w")
  have "well_formed w1"
    using w d
    by (auto simp: dataService_importData_def upsertIfAny_def send_def saveLocalData_def
          well_formed_def Let_def split: if_splits prod.splits option.splits)
  then show ?thesis
    using d by (cases res) (simp_all add: importData_def well_formed_loadData well_formed_frame)
qed

lemma well_formed_clearData: "well_formed w \<Longrightarrow> well_formed (clearData sb w)"
proof -
  assume w: "well_formed w"
  obtain res w1 where d: "dataService_clearData sb w = (res, w1)"
    by (cases "dataService_clearData sb w")
  have w1: "well_formed w1"
    using w d
    by (auto simp: dataService_clearData_def send_def well_formed_def Let_def
          split: if_splits prod.splits)
  show ?thesis
  proof (cases res)
    case (Inl message)
    with d w1 show ?thesis by (simp add: clearData_def well_formed_frame)
  next
    case (Inr u)
    obtain n w2 where n: "new_appdata empty_ledger w1 = (n, w2)"
      by (cases "new_appdata empty_ledger w1")
    from well_formed_new_appdata[OF w1 n] Inr d n show ?thesis
      by (simp add: clearData_def)
  qed
qed

lemma well_formed_Reports_clients: "well_formed w \<Longrightarrow> well_formed (snd (Reports_clients lc w))"
  by (simp add: Reports_clients_def well_formed_def Let_def)

lemma map_replace_unknown:
  "k \<notin> key ` set xs \<Longrightarrow> map (\<lambda>x. if key x = k then y else x) xs = xs"
  by (induction xs) auto

section \<open>What a handler leaves in the Ledger Store\<close>

text \<open>
  A handler shows an alert exactly when its persistence call throws. When it shows none, the
  Ledger Store holds the mutation; when it shows one, the Ledger Store is as before, for the
  updates and deletes always, and for the three additions when the backend is remote or the
  local entry exists (so that \<open>getLocalData\<close> parses a new object rather than hand out
  \<open>DEFAULT_DATA\<close>).
\<close>

lemma addClient_outcome:
  assumes "well_formed w" and "getSupabaseClient w \<or> storage w \<noteq> None"
  shows "ledger (addClient sb c w) =
          (if alerts (addClient sb c w) = alerts w
           then (ledger w)\<lparr>clients := clients (ledger w) @ [c]\<rparr> else ledger w)"
  using assms
  by (auto simp: addClient_def dataService_addClient_def handler_defs
      split: prod.splits option.splits stored.splits)

lemma addPayment_outcome:
  assumes "well_formed w" and "getSupabaseClient w \<or> storage w \<noteq> None"
  shows "ledger (addPayment sb p w) =
          (if alerts (addPayment sb p w) = alerts w
           then (ledger w)\<lparr>payments := payments (ledger w) @ [p]\<rparr> else ledger w)"
  using assms
  by (auto simp: addPayment_def dataService_addPayment_def handler_defs
      split: prod.splits option.splits stored.splits)

lemma addExpense_outcome:
  assumes "well_formed w" and "getSupabaseClient w \<or> storage w \<noteq> None"
  shows "ledger (addExpense sb e w) =
          (if alerts (addExpense sb e w) = alerts w
           then (ledger w)\<lparr>expenses := expenses (ledger w) @ [e]\<rparr> else ledger w)"
  using assms
  by (auto simp: addExpense_def dataService_addExpense_def handler_defs
      split: prod.splits option.splits stored.splits)

lemma updateClient_outcome:
  assumes "well_formed w"
  shows "ledger (updateClient sb u w) =
          (if alerts (updateClient sb u w) = alerts w
           then (ledger w)\<lparr>clients := map (\<lambda>c. if c_id c = c_id u then u else c) (clients (ledger w))\<rparr>
           else ledger w)"
  using assms
  by (auto simp: updateClient_def dataService_updateClient_def handler_defs
      split: prod.splits option.splits stored.splits)

lemma updatePayment_outcome:
  assumes "well_formed w"
  shows "ledger (updatePayment sb u w) =
          (if alerts (updatePayment sb u w) = alerts w
           then (ledger w)\<lparr>payments := map (\<lambda>p. if p_id p = p_id u then u else p) (payments (ledger w))\<rparr>
           else ledger w)"
  using assms
  by (auto simp: updatePayment_def dataService_updatePayment_def handler_defs
      split: prod.splits option.splits stored.splits)

lemma deletePayment_outcome:
  assumes "well_formed w"
  shows "ledger (deletePayment sb i w) =
          (if alerts (deletePayment sb i w) = alerts w
           then (ledger w)\<lparr>payments := filter (\<lambda>p. p_id p \<noteq> i) (payments (ledger w))\<rparr>
           else ledger w)"
  using assms
  by (auto simp: deletePayment_def dataService_deletePayment_def handler_defs
      split: prod.splits option.splits stored.splits)

lemma deleteExpense_outcome:
  assumes "well_formed w"
  shows "ledger (deleteExpense sb i w) =
          (if alerts (deleteExpense sb i w) = alerts w
           then (ledger w)\<lparr>expenses := filter (\<lambda>e. e_id e \<noteq> i) (expenses (ledger w))\<rparr>
           else ledger w)"
  using assms
  by (auto simp: deleteExpense_def dataService_deleteExpense_def handler_defs
      split: prod.splits option.splits stored.splits)

lemma rollback_restores:
  assumes "well_formed w"
  shows "getSupabaseClient w \<or> storage w \<noteq> None \<Longrightarrow>
           alerts (addClient sb c w) \<noteq> alerts w \<Longrightarrow> ledger (addClient sb c w) = ledger w"
    and "alerts (updateClient sb c w) \<noteq> alerts w \<Longrightarrow> ledger (updateClient sb c w) = ledger w"
    and "getSupabaseClient w \<or> storage w \<noteq> None \<Longrightarrow>
           alerts (addPayment sb p w) \<noteq> alerts w \<Longrightarrow> ledger (addPayment sb p w) = ledger w"
    and "alerts (updatePayment sb p w) \<noteq> alerts w \<Longrightarrow> ledger (updatePayment sb p w) = ledger w"
    and "alerts (deletePayment sb i w) \<noteq> alerts w \<Longrightarrow> ledger (deletePayment sb i w) = ledger w"
    and "getSupabaseClient w \<or> storage w \<noteq> None \<Longrightarrow>
           alerts (addExpense sb e w) \<noteq> alerts w \<Longrightarrow> ledger (addExpense sb e w) = ledger w"
    and "alerts (deleteExpense sb i w) \<noteq> alerts w \<Longrightarrow> ledger (deleteExpense sb i w) = ledger w"
  using assms
  by (simp_all add: addClient_outcome updateClient_outcome addPayment_outcome
        updatePayment_outcome deletePayment_outcome addExpense_outcome deleteExpense_outcome)

lemma local_update_keeps_stored:
  assumes "\<not> getSupabaseClient w" "storage w = Some (Json v)" "\<not> quota_exceeded w"
  shows "c_id u \<notin> c_id ` set (clients v) \<Longrightarrow>
           storage (snd (dataService_updateClient sb u w)) = Some (Json v)"
    and "p_id p \<notin> p_id ` set (payments v) \<Longrightarrow>
           storage (snd (dataService_updatePayment sb p w)) = Some (Json v)"
  using assms
  by (auto simp: dataService_updateClient_def dataService_updatePayment_def getLocalData_def
        saveLocalData_def alloc_defs contents_def Let_def map_replace_unknown split: prod.splits)

lemma fetchError_None_iff:
  "(fetchError sb s = None) =
     (snd (selectClients sb s) = None \<and> snd (selectPayments sb s) = None \<and> snd (selectExpenses sb s) = None)"
  by (simp add: fetchError_def split: option.splits)

lemma fetchData_failure:
  assumes "getSupabaseClient w" and "fetchError sb (remote w) = Some error"
  shows "fetchData sb w = localNormalized
            (w\<lparr>requests := requests w @ [SelectClients, SelectPayments, SelectExpenses],
               alerts := alerts w @ [connectionWarning error]\<rparr>)"
  using assms by (auto simp: fetchData_def fetchCatch_def fetchError_def Let_def split: option.splits)

lemma loadData_failure:
  assumes "getSupabaseClient w" and "fetchError sb (remote w) = Some error"
  shows "loadData sb w =
     (case localNormalized
            (w\<lparr>hasConnectionError := False,
               requests := requests w @ [SelectClients, SelectPayments, SelectExpenses],
               alerts := alerts w @ [connectionWarning error]\<rparr>) of
        (Inr fetchedData, w1) \<Rightarrow> w1\<lparr>data := fetchedData\<rparr>
      | (Inl e, w1) \<Rightarrow> w1\<lparr>hasConnectionError := True\<rparr>)"
proof -
  have "getSupabaseClient (w\<lparr>hasConnectionError := False\<rparr>)"
    and "fetchError sb (remote (w\<lparr>hasConnectionError := False\<rparr>)) = Some error"
    using assms by (simp_all add: getSupabaseClient_def)
  from fetchData_failure[OF this] show ?thesis
    by (simp add: loadData_def)
qed

lemma importData_remote_empty:
  "getSupabaseClient w \<Longrightarrow> dataService_importData sb empty_ledger w = (Inr (), w)"
  by (simp add: dataService_importData_def upsertIfAny_def empty_ledger_def)

lemma importData_local:
  "\<not> getSupabaseClient w \<Longrightarrow> \<not> quota_exceeded w \<Longrightarrow>
     dataService_importData sb v w = (Inr (), w\<lparr>storage := Some (Json v)\<rparr>)"
  by (simp add: dataService_importData_def saveLocalData_def)

lemma loadData_local_Json:
  assumes "\<not> getSupabaseClient w" "storage w = Some (Json v)"
  shows "ledger (loadData sb w) = v\<lparr>clients := map normalize_client (clients v)\<rparr>"
    and "alerts (loadData sb w) = alerts w"
    and "\<not> hasConnectionError (loadData sb w)"
  using assms
  by (auto simp: loadData_def fetchData_def getSupabaseClient_def localNormalized_def
        getLocalData_def alloc_defs ledger_def contents_def Let_def split: prod.splits)

lemma loadData_remote_ok:
  assumes "getSupabaseClient w" "fetchError sb (remote w) = None"
  shows "ledger (loadData sb w) =
           \<lparr>clients = map normalize_client (rows (fst (selectClients sb (remote w)))),
            payments = rows (fst (selectPayments sb (remote w))),
            expenses = rows (fst (selectExpenses sb (remote w)))\<rparr>"
  using assms
  by (auto simp: loadData_def fetchData_def getSupabaseClient_def fetchError_def
        alloc_defs ledger_def contents_def Let_def split: prod.splits option.splits)

lemma loadData_after_failed_fetch:
  assumes "getSupabaseClient w" and "fetchError sb (remote w) = Some error"
  shows "requests (loadData sb w) = requests w @ [SelectClients, SelectPayments, SelectExpenses]"
    and "alerts (loadData sb w) = alerts w @ [connectionWarning error]"
    and "hasConnectionError (loadData sb w) = (storage w = Some Garbage)"
    and "storage w = Some (Json v) \<Longrightarrow>
           ledger (loadData sb w) = v\<lparr>clients := map normalize_client (clients v)\<rparr>"
    and "storage w = None \<Longrightarrow> well_formed w \<Longrightarrow>
           ledger (loadData sb w) =
             (contents w DEFAULT_DATA)\<lparr>clients := map normalize_client (clients (contents w DEFAULT_DATA))\<rparr>"
proof -
  let ?w = "w\<lparr>hasConnectionError := False,
               requests := requests w @ [SelectClients, SelectPayments, SelectExpenses],
               alerts := alerts w @ [connectionWarning error]\<rparr>"
  note L = loadData_failure[OF assms]
  have wf: "well_formed w \<Longrightarrow> well_formed ?w" by (simp add: well_formed_def)
  have co: "contents ?w DEFAULT_DATA = contents w DEFAULT_DATA" by (simp add: contents_def)
  show "requests (loadData sb w) = requests w @ [SelectClients, SelectPayments, SelectExpenses]"
    unfolding L using localNormalized_frame(3)[of ?w]
    by (cases "localNormalized ?w") (auto split: sum.splits)
  show "alerts (loadData sb w) = alerts w @ [connectionWarning error]"
    unfolding L using localNormalized_frame(2)[of ?w]
    by (cases "localNormalized ?w") (auto split: sum.splits)
  show "hasConnectionError (loadData sb w) = (storage w = Some Garbage)"
    unfolding L using localNormalized_frame(1)[of ?w] localNormalized_fails_iff[of ?w]
    by (cases "localNormalized ?w") (auto split: sum.splits)
  show "ledger (loadData sb w) = v\<lparr>clients := map normalize_client (clients v)\<rparr>"
    if "storage w = Some (Json v)"
    unfolding L using localNormalized_Json[of ?w v] localNormalized_frame(6)[of ?w] that
      localNormalized_fails_iff[of ?w]
    by (cases "localNormalized ?w") (auto simp: ledger_def contents_def split: sum.splits)
  show "ledger (loadData sb w) =
       (contents w DEFAULT_DATA)\<lparr>clients := map normalize_client (clients (contents w DEFAULT_DATA))\<rparr>"
    if "storage w = None" "well_formed w"
    unfolding L using localNormalized_None[of ?w] that wf co localNormalized_fails_iff[of ?w]
    by (cases "localNormalized ?w") (auto simp: ledger_def contents_def split: sum.splits)
qed

text \<open>
  \<open>DEFAULT_DATA\<close> does not stay empty. On the local backend with nothing stored,
  \<open>dataService.addClient\<close> pushes the client onto its array; \<open>clearData\<close> removes the entry and
  empties the Ledger Store but not \<open>DEFAULT_DATA\<close>; once the browser is connected, a failed
  fetch brings the client back into the Ledger Store.
\<close>

lemma default_data_keeps_rows:
  "ledger (clearData (table_store allow_all) (addClient (table_store allow_all) clientC
      (loadData (table_store allow_all) (initial_world None False None None empty_ledger))))
     = empty_ledger
   \<and> storage (clearData (table_store allow_all) (addClient (table_store allow_all) clientC
      (loadData (table_store allow_all) (initial_world None False None None empty_ledger))))
     = None
   \<and> ledger (loadData (table_store (deny_these [SelectClients] ''Failed to fetch''))
      ((clearData (table_store allow_all) (addClient (table_store allow_all) clientC
         (loadData (table_store allow_all) (initial_world None False None None empty_ledger))))
       \<lparr>sb_url := Some ''https://example.supabase.co'', sb_key := Some ''anon-key''\<rparr>))
     = empty_ledger\<lparr>clients := [normalize_client clientC]\<rparr>"
  by (simp add: world_defs eval_defs addClient_def dataService_addClient_def clearData_def
        dataService_clearData_def empty_ledger_def)

section \<open>Properties of the data service and the coordinator\<close>

text \<open>
  C4, as the code has it. On the remote backend \<open>fetchData\<close> sends the three selects. When
  any of the three answers carries an error (\<open>fetchError\<close> is \<open>Some\<close> exactly then, by
  \<open>fetchError_None_iff\<close>), \<open>fetchData\<close> does not fail: it shows a connection warning with the
  first error and returns the local ledger, its clients normalised. \<open>loadData\<close> puts that
  ledger in the Ledger Store: the stored entry when there is one, and otherwise, in a
  well-formed store, what the \<open>DEFAULT_DATA\<close> object holds at that moment, which is empty at
  start-up but not after local additions (\<open>default_data_keeps_rows\<close>). It enters the
  cannot-load-data state exactly when the local entry is unreadable.
\<close>

theorem fetch_failure_falls_back:
  assumes "getSupabaseClient w" and "fetchError sb (remote w) = Some error"
  shows "fetchData sb w = localNormalized
            (w\<lparr>requests := requests w @ [SelectClients, SelectPayments, SelectExpenses],
               alerts := alerts w @ [connectionWarning error]\<rparr>)
       \<and> requests (loadData sb w) = requests w @ [SelectClients, SelectPayments, SelectExpenses]
       \<and> alerts (loadData sb w) = alerts w @ [connectionWarning error]
       \<and> hasConnectionError (loadData sb w) = (storage w = Some Garbage)
       \<and> (\<forall>v. storage w = Some (Json v) \<longrightarrow>
              ledger (loadData sb w) = v\<lparr>clients := map normalize_client (clients v)\<rparr>)
       \<and> (storage w = None \<and> well_formed w \<longrightarrow>
              ledger (loadData sb w) =
                (contents w DEFAULT_DATA)\<lparr>clients := map normalize_client (clients (contents w DEFAULT_DATA))\<rparr>)"
  using fetchData_failure[OF assms] loadData_after_failed_fetch[OF assms] by blast

theorem fetch_failure_falls_back_witness:
  "getSupabaseClient (connected_world (Some (Json example_ledger)) empty_ledger)
   \<and> fetchError (table_store (deny_these [SelectClients] ''Failed to fetch'')) empty_ledger
       = Some ''Failed to fetch''
   \<and> \<not> hasConnectionError (loadData (table_store (deny_these [SelectClients] ''Failed to fetch''))
                              (connected_world (Some (Json example_ledger)) empty_ledger))
   \<and> ledger (loadData (table_store (deny_these [SelectClients] ''Failed to fetch''))
                     (connected_world (Some (Json example_ledger)) empty_ledger))
       = example_ledger\<lparr>clients := [normalize_client clientC, normalize_client clientA]\<rparr>"
  using fetch_failure_falls_back [of "connected_world (Some (Json example_ledger)) empty_ledger"
          "table_store (deny_these [SelectClients] ''Failed to fetch'')" "''Failed to fetch''"]
  by (simp add: world_defs fetchError_def getSupabaseClient_def truthy_def example_ledger_def)

text \<open>
  C4, as stated, fails: with the payments select refused and nothing stored locally,
  \<open>fetchData\<close> returns a ledger, and \<open>loadData\<close> shows the empty local ledger with no error
  state, while the remote tables hold the example ledger.
\<close>

theorem fetch_failure_counterexample:
  "snd (selectPayments (table_store (deny_these [SelectPayments] ''Failed to fetch''))
          (remote (connected_world None example_ledger)))
     = Some ''Failed to fetch''
   \<and> \<not> isl (fst (fetchData (table_store (deny_these [SelectPayments] ''Failed to fetch''))
                     (connected_world None example_ledger)))
   \<and> \<not> hasConnectionError (loadData (table_store (deny_these [SelectPayments] ''Failed to fetch''))
                              (connected_world None example_ledger))
   \<and> ledger (loadData (table_store (deny_these [SelectPayments] ''Failed to fetch''))
                     (connected_world None example_ledger)) = empty_ledger"
  by (simp add: world_defs eval_defs example_ledger_def empty_ledger_def)

text \<open>
  C5, as the code has it. Importing the empty payload succeeds on the remote backend, and on
  the local backend when the browser accepts the write. On the local backend the Ledger Store
  is empty afterwards. On the remote backend nothing is sent before the reload, so the import
  is a plain \<open>loadData\<close>. When the three selects succeed, the Ledger Store holds the rows they
  return, the clients normalised, so it is empty only if the remote tables are. When a
  select fails, the reload falls back as for C4: a connection warning, and the Ledger Store
  holds the local ledger (the stored entry, or what \<open>DEFAULT_DATA\<close> holds), the
  cannot-load-data state being entered exactly when the local entry is unreadable.
\<close>

theorem import_empty_payload:
  "(\<not> getSupabaseClient w \<and> \<not> quota_exceeded w \<longrightarrow>
       fst (dataService_importData sb empty_ledger w) = Inr ()
     \<and> ledger (importData sb empty_ledger w) = empty_ledger
     \<and> alerts (importData sb empty_ledger w) = alerts w
     \<and> \<not> hasConnectionError (importData sb empty_ledger w))
   \<and> (getSupabaseClient w \<longrightarrow>
       fst (dataService_importData sb empty_ledger w) = Inr ()
     \<and> importData sb empty_ledger w = loadData sb w)
   \<and> (getSupabaseClient w \<and> fetchError sb (remote w) = None \<longrightarrow>
       ledger (importData sb empty_ledger w) =
           \<lparr>clients = map normalize_client (rows (fst (selectClients sb (remote w)))),
            payments = rows (fst (selectPayments sb (remote w))),
            expenses = rows (fst (selectExpenses sb (remote w)))\<rparr>)
   \<and> (getSupabaseClient w \<and> fetchError sb (remote w) = Some error \<longrightarrow>
       alerts (importData sb empty_ledger w) = alerts w @ [connectionWarning error]
     \<and> hasConnectionError (importData sb empty_ledger w) = (storage w = Some Garbage)
     \<and> (\<forall>v. storage w = Some (Json v) \<longrightarrow>
           ledger (importData sb empty_ledger w) = v\<lparr>clients := map normalize_client (clients v)\<rparr>)
     \<and> (storage w = None \<and> well_formed w \<longrightarrow>
           ledger (importData sb empty_ledger w) =
             (contents w DEFAULT_DATA)\<lparr>clients := map normalize_client (clients (contents w DEFAULT_DATA))\<rparr>))"
proof -
  have l: "ledger (importData sb empty_ledger w) = empty_ledger
     \<and> alerts (importData sb empty_ledger w) = alerts w
     \<and> \<not> hasConnectionError (importData sb empty_ledger w)"
    if "\<not> getSupabaseClient w" "\<not> quota_exceeded w"
  proof -
    let ?w = "w\<lparr>storage := Some (Json empty_ledger)\<rparr>"
    have "\<not> getSupabaseClient ?w" "storage ?w = Some (Json empty_ledger)"
      using that by (simp_all add: getSupabaseClient_def)
    from loadData_local_Json[OF this, of sb] show ?thesis
      by (simp add: importData_def importData_local[OF that] empty_ledger_def)
  qed
  have r: "importData sb empty_ledger w = loadData sb w" if "getSupabaseClient w"
    by (simp add: importData_def importData_remote_empty[OF that])
  have f: "alerts (importData sb empty_ledger w) = alerts w @ [connectionWarning error]
     \<and> hasConnectionError (importData sb empty_ledger w) = (storage w = Some Garbage)
     \<and> (\<forall>v. storage w = Some (Json v) \<longrightarrow>
           ledger (importData sb empty_ledger w) = v\<lparr>clients := map normalize_client (clients v)\<rparr>)
     \<and> (storage w = None \<and> well_formed w \<longrightarrow>
           ledger (importData sb empty_ledger w) =
             (contents w DEFAULT_DATA)\<lparr>clients := map normalize_client (clients (contents w DEFAULT_DATA))\<rparr>)"
    if "getSupabaseClient w" "fetchError sb (remote w) = Some error"
    unfolding r[OF that(1)] using loadData_after_failed_fetch[OF that] by blast
  show ?thesis
    using l r f importData_remote_empty[of w sb] importData_local[of w sb empty_ledger]
      loadData_remote_ok[of w sb]
    by auto
qed

theorem import_empty_payload_witness:
  "\<not> getSupabaseClient (initial_world (Some (Json example_ledger)) False None None empty_ledger)
   \<and> \<not> quota_exceeded (initial_world (Some (Json example_ledger)) False None None empty_ledger)
   \<and> ledger (importData (table_store allow_all) empty_ledger
        (initial_world (Some (Json example_ledger)) False None None empty_ledger)) = empty_ledger"
  using import_empty_payload [of "initial_world (Some (Json example_ledger)) False None None empty_ledger"
           "table_store allow_all" "''Failed to fetch''"]
  by (simp add: initial_world_def getSupabaseClient_def truthy_def)

text \<open>
  C5, as stated, fails on the remote backend: with the example ledger in the remote tables,
  the import of the empty payload succeeds and the Ledger Store then holds the example ledger.
\<close>

theorem import_empty_payload_counterexample:
  "getSupabaseClient (connected_world None example_ledger)
   \<and> fst (dataService_importData (table_store allow_all) empty_ledger
             (connected_world None example_ledger)) = Inr ()
   \<and> ledger (importData (table_store allow_all) empty_ledger (connected_world None example_ledger))
       = example_ledger\<lparr>clients := [normalize_client clientC, normalize_client clientA]\<rparr>
   \<and> ledger (importData (table_store allow_all) empty_ledger (connected_world None example_ledger))
       \<noteq> empty_ledger"
  by (simp add: world_defs eval_defs importData_def dataService_importData_def upsertIfAny_def
        example_ledger_def empty_ledger_def)

text \<open>
  C10. On the remote backend \<open>clearData\<close> sends the three deletes, payments, expenses,
  clients, in that order and each to the state the previous one left, whatever their answers;
  it throws one error afterwards if any answer carried an error, and returns otherwise.
  \<open>importData\<close>, in contrast, stops at the first refused upsert: when the clients upsert is
  refused, it is the only request sent.
\<close>

theorem clearData_attempts_every_delete:
  assumes "getSupabaseClient w"
  shows "requests (snd (dataService_clearData sb w)) =
           requests w @ [DeleteAllPayments, DeleteAllExpenses, DeleteAllClients]
       \<and> remote (snd (dataService_clearData sb w)) =
           snd (execute sb DeleteAllClients (snd (execute sb DeleteAllExpenses
              (snd (execute sb DeleteAllPayments (remote w))))))
       \<and> fst (dataService_clearData sb w) =
          (let (e1, s1) = execute sb DeleteAllPayments (remote w);
               (e2, s2) = execute sb DeleteAllExpenses s1;
               (e3, s3) = execute sb DeleteAllClients s2
           in if e1 = None \<and> e2 = None \<and> e3 = None then Inr ()
              else Inl ''Failed to clear some cloud data. Check RLS.'')
       \<and> (clients nd \<noteq> [] \<and> fst (execute sb (UpsertClients (clients nd)) (remote w)) = Some e \<longrightarrow>
            fst (dataService_importData sb nd w) = Inl e
          \<and> requests (snd (dataService_importData sb nd w)) = requests w @ [UpsertClients (clients nd)])"
  using assms
  by (auto simp: dataService_clearData_def dataService_importData_def upsertIfAny_def send_def
        Let_def split: prod.splits)

theorem clearData_attempts_every_delete_witness:
  "getSupabaseClient (connected_world None example_ledger)
   \<and> fst (dataService_clearData (table_store (deny_these [DeleteAllPayments, UpsertClients (clients example_ledger)] ''row-level security''))
             (connected_world None example_ledger))
       = Inl ''Failed to clear some cloud data. Check RLS.''
   \<and> requests (snd (dataService_clearData (table_store (deny_these [DeleteAllPayments, UpsertClients (clients example_ledger)] ''row-level security''))
             (connected_world None example_ledger)))
       = [DeleteAllPayments, DeleteAllExpenses, DeleteAllClients]
   \<and> remote (snd (dataService_clearData (table_store (deny_these [DeleteAllPayments, UpsertClients (clients example_ledger)] ''row-level security''))
             (connected_world None example_ledger)))
       = \<lparr>clients = [], payments = [payment1, payment2, payment3], expenses = []\<rparr>"
  using clearData_attempts_every_delete [of "connected_world None example_ledger"
          "table_store (deny_these [DeleteAllPayments, UpsertClients (clients example_ledger)] ''row-level security'')" example_ledger "''row-level security''"]
  by (simp add: world_defs getSupabaseClient_def truthy_def example_ledger_def)

text \<open>
  C9. In a well-formed store, \<open>updateClient\<close> with a client whose id no client of the Ledger
  Store has, and \<open>updatePayment\<close> with a payment whose id no payment of the Ledger Store
  has, leave the Ledger Store as it was, whether the persistence call succeeds or fails. On
  the local backend the stored ledger stays the same too.
\<close>

theorem update_unknown_id_is_noop:
  assumes "well_formed w"
  shows "(c_id u \<notin> c_id ` set (clients (ledger w)) \<longrightarrow> ledger (updateClient sb u w) = ledger w)
       \<and> (p_id p \<notin> p_id ` set (payments (ledger w)) \<longrightarrow> ledger (updatePayment sb p w) = ledger w)
       \<and> (\<not> getSupabaseClient w \<and> storage w = Some (Json v) \<and> \<not> quota_exceeded w
            \<and> c_id u \<notin> c_id ` set (clients v) \<longrightarrow>
              storage (snd (dataService_updateClient sb u w)) = Some (Json v))
       \<and> (\<not> getSupabaseClient w \<and> storage w = Some (Json v) \<and> \<not> quota_exceeded w
            \<and> p_id p \<notin> p_id ` set (payments v) \<longrightarrow>
              storage (snd (dataService_updatePayment sb p w)) = Some (Json v))"
proof -
  have c: "ledger (updateClient sb u w) = ledger w"
    if "c_id u \<notin> c_id ` set (clients (ledger w))"
    using updateClient_outcome[OF assms, of sb u] map_replace_unknown[OF that, of u]
    by (simp split: if_splits)
  have q: "ledger (updatePayment sb p w) = ledger w"
    if "p_id p \<notin> p_id ` set (payments (ledger w))"
    using updatePayment_outcome[OF assms, of sb p] map_replace_unknown[OF that, of p]
    by (simp split: if_splits)
  show ?thesis
    using c q local_update_keeps_stored[where w = w and v = v and sb = sb] by blast
qed

theorem update_unknown_id_is_noop_witness:
  "well_formed (loadData (table_store allow_all)
      (initial_world (Some (Json example_ledger)) False None None empty_ledger))
   \<and> c_id (clientA\<lparr>c_id := ''Z''\<rparr>) \<notin> c_id ` set (clients (ledger (loadData (table_store allow_all)
      (initial_world (Some (Json example_ledger)) False None None empty_ledger))))
   \<and> ledger (updateClient (table_store allow_all) (clientA\<lparr>c_id := ''Z''\<rparr>)
        (loadData (table_store allow_all)
          (initial_world (Some (Json example_ledger)) False None None empty_ledger)))
     = ledger (loadData (table_store allow_all)
          (initial_world (Some (Json example_ledger)) False None None empty_ledger))
   \<and> p_id (payment1\<lparr>p_id := ''p9''\<rparr>) \<notin> p_id ` set (payments (ledger (loadData (table_store allow_all)
      (initial_world (Some (Json example_ledger)) False None None empty_ledger))))
   \<and> ledger (updatePayment (table_store allow_all) (payment1\<lparr>p_id := ''p9''\<rparr>)
        (loadData (table_store allow_all)
          (initial_world (Some (Json example_ledger)) False None None empty_ledger)))
     = ledger (loadData (table_store allow_all)
          (initial_world (Some (Json example_ledger)) False None None empty_ledger))
   \<and> storage (snd (dataService_updateClient (table_store allow_all) (clientA\<lparr>c_id := ''Z''\<rparr>)
        (loadData (table_store allow_all)
          (initial_world (Some (Json example_ledger)) False None None empty_ledger))))
     = Some (Json example_ledger)"
  using update_unknown_id_is_noop [of "loadData (table_store allow_all)
          (initial_world (Some (Json example_ledger)) False None None empty_ledger)"
          "clientA\<lparr>c_id := ''Z''\<rparr>" "table_store allow_all" "payment1\<lparr>p_id := ''p9''\<rparr>" example_ledger]
  by (simp add: world_defs eval_defs well_formed_def example_defs normalize_client_def)

text \<open>
  C1. A failed mutation is to leave the Ledger Store exactly as it was before the mutation
  (\<open>rollback_restores\<close> shows when it does). It does not on the local backend when nothing
  is stored and the browser refuses the write. After the initial load the state is
  \<open>DEFAULT_DATA\<close> itself; \<open>prevData\<close>, a shallow copy, shares its arrays;
  \<open>dataService.addPayment\<close> pushes the payment onto the array of \<open>DEFAULT_DATA\<close> before
  \<open>saveLocalData\<close> throws; and the rollback puts \<open>prevData\<close> back, with the payment in it.
  The Ledger Store was empty before the mutation and holds the payment after the rollback;
  \<open>addClient\<close> and \<open>addExpense\<close> do the same.
\<close>

theorem rollback_keeps_added_row:
  "\<not> getSupabaseClient (loadData (table_store allow_all) (initial_world None True None None empty_ledger))
   \<and> ledger (loadData (table_store allow_all) (initial_world None True None None empty_ledger))
       = empty_ledger
   \<and> alerts (addPayment (table_store allow_all) payment1
        (loadData (table_store allow_all) (initial_world None True None None empty_ledger)))
       = [''QuotaExceededError'']
   \<and> ledger (addPayment (table_store allow_all) payment1
        (loadData (table_store allow_all) (initial_world None True None None empty_ledger)))
       = empty_ledger\<lparr>payments := [payment1]\<rparr>
   \<and> ledger (addClient (table_store allow_all) clientC
        (loadData (table_store allow_all) (initial_world None True None None empty_ledger)))
       = empty_ledger\<lparr>clients := [clientC]\<rparr>
   \<and> ledger (addExpense (table_store allow_all) expense1
        (loadData (table_store allow_all) (initial_world None True None None empty_ledger)))
       = empty_ledger\<lparr>expenses := [expense1]\<rparr>"
  by (simp add: world_defs eval_defs addPayment_def dataService_addPayment_def addClient_def
        dataService_addClient_def addExpense_def dataService_addExpense_def empty_ledger_def)

text \<open>
  C8. An aggregation is to leave the ledger it reads unchanged. \<open>reportData\<close>, the dashboard
  statistics and the client financials are functions of the ledger's contents and change
  nothing. The client list of the report page is not: it sorts \<open>data.clients\<close>, the array of
  the Ledger Store, in place. With the example ledger loaded, whose clients are Zed Works and
  Amy Ltd in that order, the Ledger Store holds them in the other order afterwards.
\<close>

theorem report_client_list_reorders_ledger:
  "clients (ledger (loadData (table_store allow_all)
              (initial_world (Some (Json example_ledger)) False None None empty_ledger)))
     = [normalize_client clientC, normalize_client clientA]
   \<and> clients (ledger (snd (Reports_clients ordinalCompare (loadData (table_store allow_all)
              (initial_world (Some (Json example_ledger)) False None None empty_ledger)))))
     = [normalize_client clientA, normalize_client clientC]
   \<and> ledger (snd (Reports_clients ordinalCompare (loadData (table_store allow_all)
              (initial_world (Some (Json example_ledger)) False None None empty_ledger))))
     \<noteq> ledger (loadData (table_store allow_all)
              (initial_world (Some (Json example_ledger)) False None None empty_ledger))"
  by (simp add: world_defs eval_defs Reports_clients_def example_defs ordinalCompare_def normalize_client_def)

end
